theory Spec2Isabelle
  imports Complex_Main "HOL-Library.Sublist"
begin

section \<open>Errors\<close>

text \<open>
  The error kinds the collector returns (package \<open>errors\<close>: \<open>ERR_CONFIG\<close>,
  \<open>ERR_NO_INSTANCE\<close>, \<open>MISSING_PARAM\<close>), an error handed up from a callee (the REST
  client, a matrix operation), and a Go run-time panic.
\<close>

datatype error =
    ErrConfig string
  | ErrNoInstance string
  | ErrMissingParam string
  | ErrOther string
  | Panic string

section \<open>The matrix package\<close>

text \<open>
  Package \<open>pkg/matrix\<close> is not among the sources; its operations are modelled from
  the specification (sections 3 and 4.1). The cell arithmetic on \<open>float64\<close> is a
  parameter: every theorem below holds for each interpretation of subtraction, division,
  multiplication, comparison and conversion, IEEE 754 binary64 being one of them.
\<close>

record 'v float64_ops =
  f_sub :: "'v \<Rightarrow> 'v \<Rightarrow> 'v"
  f_div :: "'v \<Rightarrow> 'v \<Rightarrow> 'v"
  f_mul :: "'v \<Rightarrow> 'v \<Rightarrow> 'v"
  f_lt :: "'v \<Rightarrow> 'v \<Rightarrow> bool"
  f_eq :: "'v \<Rightarrow> 'v \<Rightarrow> bool"
  f_of_int :: "int \<Rightarrow> 'v"

text \<open>The interpretation used to run the model on concrete samples: exact reals.\<close>

definition real_ops :: "real float64_ops" where
  "real_ops = \<lparr> f_sub = (\<lambda>a b. a - b), f_div = (\<lambda>a b. a / b), f_mul = (\<lambda>a b. a * b),
                f_lt = (\<lambda>a b. a < b), f_eq = (\<lambda>a b. a = b), f_of_int = real_of_int \<rparr>"

text \<open>
  Modelled from the spec: a Metric is a named column whose value vector is aligned with
  the instances of its Matrix, sparse with validity bits. A cell is \<open>Some v\<close> when its
  validity bit is set and \<open>None\<close> when it is not. The attributes are the ones
  \<open>restperf.go\<close> reads and writes: \<open>GetName/SetName\<close>, \<open>SetProperty\<close>,
  \<open>SetExportable\<close>, \<open>IsArray/SetArray\<close>, \<open>SetLabel\<close>.
\<close>

record 'v Metric =
  mName :: string
  mProperty :: string
  mExportable :: bool
  mArray :: bool
  mLabels :: "(string \<times> string) list"
  cells :: "'v option list"

text \<open>
  Modelled from the spec: a Matrix holds instances (here their keys, in index order) and
  a mapping from metric key to Metric. The mapping is a Go map; it is kept as an
  association list whose order stands for the order in which one \<open>range\<close> over the map
  happens to visit it, so a statement about every list is a statement about every
  iteration order.
\<close>

record 'v Matrix =
  Object :: string
  globalLabels :: "(string \<times> string) list"
  instances :: "string list"
  metrics :: "(string \<times> 'v Metric) list"

definition GetMetric :: "'v Matrix \<Rightarrow> string \<Rightarrow> 'v Metric option" where
  "GetMetric M key = map_of (metrics M) key"

text \<open>A write through the pointer \<open>GetMetric\<close> returned: the entry under \<open>key\<close> is replaced.\<close>

definition put_metric :: "string \<Rightarrow> 'v Metric \<Rightarrow> 'v Matrix \<Rightarrow> 'v Matrix" where
  "put_metric key m M =
     M\<lparr>metrics := map (\<lambda>(k, x). if k = key then (k, m) else (k, x)) (metrics M)\<rparr>"

text \<open>A setter called on that pointer: \<open>SetName\<close>, \<open>SetExportable\<close>, \<open>SetLabel\<close>.\<close>

definition modify_metric :: "string \<Rightarrow> ('v Metric \<Rightarrow> 'v Metric) \<Rightarrow> 'v Matrix \<Rightarrow> 'v Matrix" where
  "modify_metric key f M =
     M\<lparr>metrics := map (\<lambda>(k, x). if k = key then (k, f x) else (k, x)) (metrics M)\<rparr>"

text \<open>
  Modelled from the spec: \<open>new_metric_float64(name)\<close> adds a column of invalid cells, one
  per instance, named after its key and exportable; it fails when the key exists.
\<close>

definition NewMetricFloat64 :: "'v Matrix \<Rightarrow> string \<Rightarrow> error + ('v Metric \<times> 'v Matrix)" where
  "NewMetricFloat64 M key =
     (case GetMetric M key of
        Some _ \<Rightarrow> Inl (ErrOther ''metric already exists'')
      | None \<Rightarrow>
          (let m = \<lparr> mName = key, mProperty = [], mExportable = True, mArray = False,
                     mLabels = [], cells = replicate (length (instances M)) None \<rparr>
           in Inr (m, M\<lparr>metrics := metrics M @ [(key, m)]\<rparr>)))"

definition SetLabel :: "string \<Rightarrow> string \<Rightarrow> 'v Metric \<Rightarrow> 'v Metric" where
  "SetLabel k v m = m\<lparr>mLabels := (k, v) # filter (\<lambda>(k', _). k' \<noteq> k) (mLabels m)\<rparr>"

text \<open>Modelled from the spec: \<open>set_global_label\<close> stores a label applied to every series.\<close>

definition SetGlobalLabel :: "string \<Rightarrow> string \<Rightarrow> 'v Matrix \<Rightarrow> 'v Matrix" where
  "SetGlobalLabel k v M = M\<lparr>globalLabels := (k, v) # filter (\<lambda>(k', _). k' \<noteq> k) (globalLabels M)\<rparr>"

text \<open>
  Modelled from the spec: \<open>clone\<close> is a deep copy; \<open>data = false\<close> yields a shaped but
  empty clone. The three flags are the ones \<open>restperf.go\<close> passes:
  \<open>Clone(withData, withMetrics, withInstances)\<close>. A deep copy shares no cell with its
  original, which a value of the model never does either.
\<close>

definition Clone :: "bool \<Rightarrow> bool \<Rightarrow> bool \<Rightarrow> 'v Matrix \<Rightarrow> 'v Matrix" where
  "Clone withData withMetrics withInstances M =
     \<lparr> Object = Object M, globalLabels = globalLabels M,
       instances = (if withInstances then instances M else []),
       metrics = (if withMetrics
                  then map (\<lambda>(k, m). (k, if withData then m
                                           else m\<lparr>cells := replicate (length (cells m)) None\<rparr>))
                           (metrics M)
                  else []) \<rparr>"

text \<open>Modelled from the spec: \<open>Reset\<close> clears every validity bit.\<close>

definition Reset :: "'v Matrix \<Rightarrow> 'v Matrix" where
  "Reset M = M\<lparr>metrics := map (\<lambda>(k, m). (k, m\<lparr>cells := replicate (length (instances M)) None\<rparr>))
                              (metrics M)\<rparr>"

text \<open>
  Cell-wise operations run over the receiver's vector; a cell the other vector does not
  have counts as invalid.
\<close>

definition pad :: "nat \<Rightarrow> 'v option list \<Rightarrow> 'v option list" where
  "pad n ys = take n (ys @ replicate n None)"

definition cellwise :: "('v option \<Rightarrow> 'v option \<Rightarrow> 'v option) \<Rightarrow> 'v Metric \<Rightarrow> 'v Metric \<Rightarrow> 'v Metric" where
  "cellwise f m s = m\<lparr>cells := map2 f (cells m) (pad (length (cells m)) (cells s))\<rparr>"

text \<open>
  Modelled from the spec: \<open>delta(other)\<close>, for each cell valid in both, computes current
  minus previous; it invalidates cells where either side is invalid or where
  current < previous (a counter wrap invalidates the cell).
\<close>

definition delta_cell :: "'v float64_ops \<Rightarrow> 'v option \<Rightarrow> 'v option \<Rightarrow> 'v option" where
  "delta_cell ar c p =
     (case (c, p) of
        (Some a, Some b) \<Rightarrow> if f_lt ar a b then None else Some (f_sub ar a b)
      | _ \<Rightarrow> None)"

text \<open>
  \<open>Delta\<close> is handed \<open>r.Matrix.GetMetric(key)\<close>, which is nil when the previous sample
  has no such column. The spec (section 3) has such a column skipped for the cycle:
  the operation reports an error and leaves the receiver as it was.
\<close>

definition Delta :: "'v float64_ops \<Rightarrow> 'v Metric \<Rightarrow> 'v Metric option \<Rightarrow> error + 'v Metric" where
  "Delta ar m prev =
     (case prev of
        None \<Rightarrow> Inl (ErrOther ''no previous column'')
      | Some s \<Rightarrow> Inr (cellwise (delta_cell ar) m s))"

text \<open>Modelled from the spec: \<open>divide(denominator)\<close> is cell-wise and invalidates on denominator = 0.\<close>

definition divide_cell :: "'v float64_ops \<Rightarrow> 'v option \<Rightarrow> 'v option \<Rightarrow> 'v option" where
  "divide_cell ar c d =
     (case (c, d) of
        (Some a, Some b) \<Rightarrow> if f_eq ar b (f_of_int ar 0) then None else Some (f_div ar a b)
      | _ \<Rightarrow> None)"

definition Divide :: "'v float64_ops \<Rightarrow> 'v Metric \<Rightarrow> 'v Metric \<Rightarrow> error + 'v Metric" where
  "Divide ar m s = Inr (cellwise (divide_cell ar) m s)"

text \<open>
  Modelled from the spec: \<open>divide_with_threshold(denominator, threshold)\<close>; when the
  denominator cell is below the threshold it produces 0 and marks the cell valid.
\<close>

definition threshold_cell :: "'v float64_ops \<Rightarrow> int \<Rightarrow> 'v option \<Rightarrow> 'v option \<Rightarrow> 'v option" where
  "threshold_cell ar t c d =
     (case d of
        None \<Rightarrow> None
      | Some b \<Rightarrow>
          if f_lt ar b (f_of_int ar t) then Some (f_of_int ar 0)
          else (case c of None \<Rightarrow> None | Some a \<Rightarrow> Some (f_div ar a b)))"

definition DivideWithThreshold :: "'v float64_ops \<Rightarrow> 'v Metric \<Rightarrow> 'v Metric \<Rightarrow> int \<Rightarrow> error + 'v Metric" where
  "DivideWithThreshold ar m s t = Inr (cellwise (threshold_cell ar t) m s)"

text \<open>Modelled from the spec: \<open>multiply_by_scalar(k)\<close> scales every valid cell.\<close>

definition MultiplyByScalar :: "'v float64_ops \<Rightarrow> 'v Metric \<Rightarrow> int \<Rightarrow> error + 'v Metric" where
  "MultiplyByScalar ar m k =
     Inr (m\<lparr>cells := map (map_option (\<lambda>a. f_mul ar a (f_of_int ar k))) (cells m)\<rparr>)"

section \<open>The template tree\<close>

text \<open>
  Modelled from the spec (section 4.2): a generic n-ary tree of (name, content,
  children), order-preserving, with \<open>get_child(name)\<close> and \<open>get_child_content(name)\<close>;
  the content of a child that does not exist reads as the empty string, which is what
  \<open>loadParamInt\<close> and \<open>GetOverride\<close> test for.
\<close>

datatype node = Node (nodeName: string) (nodeContent: string) (nodeChildren: "node list")

definition GetChildS :: "node \<Rightarrow> string \<Rightarrow> node option" where
  "GetChildS n child = find (\<lambda>c. nodeName c = child) (nodeChildren n)"

definition GetChildContentS :: "node \<Rightarrow> string \<Rightarrow> string" where
  "GetChildContentS n child = (case GetChildS n child of None \<Rightarrow> [] | Some c \<Rightarrow> nodeContent c)"

section \<open>The RestPerf collector: state\<close>

text \<open>\<open>type counter struct\<close> of \<open>restperf.go\<close>.\<close>

record counter =
  name :: string
  description :: string
  counterType :: string
  unit :: string
  denominator :: string

text \<open>\<open>type perfProp struct\<close> of \<open>restperf.go\<close>; \<open>counterInfo\<close> is only ever looked up and stored into.\<close>

record perfProp =
  isCacheEmpty :: bool
  counterInfo :: "string \<rightharpoonup> counter"
  latencyIoReqd :: int
  qosLabels :: "(string \<times> string) list"

text \<open>
  The entries of \<open>r.Prop.Metrics\<close> (\<open>rest2.Metric\<close>), with the four fields
  \<open>PollCounter\<close> fills in: \<open>Label\<close>, \<open>Name\<close> (here \<open>MName\<close>), \<open>MetricType\<close> and
  \<open>Exportable\<close>.
\<close>

record rest_Metric =
  Label :: string
  MName :: string
  MetricType :: string
  Exportable :: bool

text \<open>
  The collector, with the parts of the embedded \<open>rest2.Rest\<close> that \<open>PollCounter\<close> and
  \<open>PollData\<close> use: the matrix of the previous sample \<open>r.Matrix\<close>, the template
  \<open>r.Params\<close>, \<open>r.Prop.Object\<close>, \<open>r.Prop.Query\<close> and \<open>r.Prop.Metrics\<close> (a Go map that is iterated, so
  an association list as for the matrix).
\<close>

record 'v RestPerf =
  Matrix :: "'v Matrix"
  Params :: node
  PropObject :: string
  Query :: string
  Metrics :: "(string \<times> rest_Metric) list"
  perfProp :: perfProp

definition qosDetailQuery :: string where
  "qosDetailQuery = ''api/cluster/counter/tables/qos_detail''"

definition qosDetailVolumeQuery :: string where
  "qosDetailVolumeQuery = ''api/cluster/counter/tables/qos_detail_volume''"

definition isWorkloadDetailObject :: "string \<Rightarrow> bool" where
  "isWorkloadDetailObject query \<longleftrightarrow> query = qosDetailQuery \<or> query = qosDetailVolumeQuery"

section \<open>counterLookup\<close>

text \<open>\<open>strings.LastIndex(s, "#")\<close>: the index of the last \<open>#\<close>, or -1.\<close>

definition LastIndex :: "string \<Rightarrow> char \<Rightarrow> int" where
  "LastIndex s c =
     (if c \<in> set s then int (length s) - 1 - int (length (takeWhile (\<lambda>x. x \<noteq> c) (rev s)))
      else - 1)"

text \<open>
  For an array metric the key is \<open>name#label\<close> and the counter is stored under
  \<open>name\<close>. \<open>metricKey[:lastInd]\<close> with \<open>lastInd = -1\<close> is a run-time panic.
\<close>

definition counterLookup :: "'v RestPerf \<Rightarrow> 'v Metric \<Rightarrow> string \<Rightarrow> error + counter option" where
  "counterLookup r metric metricKey =
     (if mArray metric then
        (let lastInd = LastIndex metricKey (CHR ''#'') in
         if lastInd < 0 then Inl (Panic ''slice bounds out of range'')
         else Inr (counterInfo (perfProp r) (take (nat lastInd) metricKey)))
      else Inr (counterInfo (perfProp r) metricKey))"

section \<open>PollData: post-processing\<close>

text \<open>
  The loop over \<open>newData.GetMetrics()\<close> that sets the unit label and sorts the keys into
  \<open>orderedNonDenominatorKeys\<close> and \<open>orderedDenominatorKeys\<close>. The entries are visited in
  the order of the list; \<open>metric.SetLabel\<close> writes through the pointer into \<open>newData\<close>.
  The slices of metric pointers are not kept: the metric of a key is looked up in
  \<open>newData\<close> when it is used, which is the same object as long as the keys of the map
  are distinct.
\<close>

fun partition_metrics ::
  "'v RestPerf \<Rightarrow> (string \<times> 'v Metric) list \<Rightarrow> 'v Matrix \<Rightarrow> string list \<Rightarrow> string list
     \<Rightarrow> error + ('v Matrix \<times> string list \<times> string list)" where
  "partition_metrics r [] newData nonDen den = Inr (newData, nonDen, den)"
| "partition_metrics r ((key, metric) # rest) newData nonDen den =
     (if mName metric \<noteq> ''timestamp'' then
        (case counterLookup r metric key of
           Inl e \<Rightarrow> Inl e
         | Inr None \<Rightarrow> partition_metrics r rest newData nonDen den
         | Inr (Some c) \<Rightarrow>
             (let newData' =
                    (if \<not> isWorkloadDetailObject (Query r)
                     then put_metric key (SetLabel ''unit'' (unit c) metric) newData
                     else newData)
              in if denominator c = []
                 then partition_metrics r rest newData' (nonDen @ [key]) den
                 else partition_metrics r rest newData' nonDen (den @ [key])))
      else partition_metrics r rest newData nonDen den)"

text \<open>
  The tail of the first loop's body, for a metric whose delta is taken and whose base
  counter \<open>base\<close> was found: average and percent divide by the base, with the threshold
  for a display name ending in \<open>latency\<close>; percent then multiplies by 100; any other
  property is logged as unknown. A failing operation is logged and leaves the metric as
  it was before the call.
\<close>

definition apply_base ::
  "'v float64_ops \<Rightarrow> 'v RestPerf \<Rightarrow> string \<Rightarrow> string \<Rightarrow> 'v Metric \<Rightarrow> 'v Metric \<Rightarrow> 'v Matrix \<Rightarrow> 'v Matrix" where
  "apply_base ar r property key metric base newData =
     (if property = ''average'' \<or> property = ''percent'' then
        (case (if suffix ''latency'' (mName metric)
               then DivideWithThreshold ar metric base (latencyIoReqd (perfProp r))
               else Divide ar metric base) of
           Inl e \<Rightarrow> newData
         | Inr m2 \<Rightarrow>
             if property = ''average'' then put_metric key m2 newData
             else (case MultiplyByScalar ar m2 100 of
                     Inl e \<Rightarrow> put_metric key m2 newData
                   | Inr m3 \<Rightarrow> put_metric key m3 newData))
      else newData)"

text \<open>
  The body of the first loop over \<open>orderedMetrics\<close>, for the metric stored under
  \<open>key\<close>. \<open>r.Matrix\<close> is the previous sample. A key of \<open>orderedKeys\<close> always has its
  metric in \<open>newData\<close>; the model leaves \<open>newData\<close> alone for any other key.
\<close>

definition process_metric ::
  "'v float64_ops \<Rightarrow> 'v RestPerf \<Rightarrow> string \<Rightarrow> 'v Matrix \<Rightarrow> error + 'v Matrix" where
  "process_metric ar r key newData =
     (case GetMetric newData key of
        None \<Rightarrow> Inr newData
      | Some metric \<Rightarrow>
          (case counterLookup r metric key of
             Inl e \<Rightarrow> Inl e
           | Inr None \<Rightarrow> Inr newData
           | Inr (Some c) \<Rightarrow>
               (let property = counterType c in
                if property = ''raw'' then Inr newData
                else
                  (case Delta ar metric (GetMetric (Matrix r) key) of
                     Inl e \<Rightarrow> Inr newData
                   | Inr m1 \<Rightarrow>
                       (let newData1 = put_metric key m1 newData in
                        if property = ''delta'' then Inr newData1
                        else if property = ''rate'' then Inr newData1
                        else
                          (case GetMetric newData1 (denominator c) of
                             None \<Rightarrow> Inr newData1
                           | Some base \<Rightarrow> Inr (apply_base ar r property key m1 base newData1)))))))"

fun first_pass ::
  "'v float64_ops \<Rightarrow> 'v RestPerf \<Rightarrow> string list \<Rightarrow> 'v Matrix \<Rightarrow> error + 'v Matrix" where
  "first_pass ar r [] newData = Inr newData"
| "first_pass ar r (key # keys) newData =
     (case process_metric ar r key newData of
        Inl e \<Rightarrow> Inl e
      | Inr newData' \<Rightarrow> first_pass ar r keys newData')"

text \<open>
  The body of the second loop: a rate is the delta divided by \<open>timestamp\<close>, the pointer
  to the metric that \<open>newData\<close> holds under the key \<open>timestamp\<close>.
\<close>

definition calculate_rate ::
  "'v float64_ops \<Rightarrow> 'v RestPerf \<Rightarrow> string \<Rightarrow> 'v Matrix \<Rightarrow> error + 'v Matrix" where
  "calculate_rate ar r key newData =
     (case GetMetric newData key of
        None \<Rightarrow> Inr newData
      | Some metric \<Rightarrow>
          (case counterLookup r metric key of
             Inl e \<Rightarrow> Inl e
           | Inr None \<Rightarrow> Inr newData
           | Inr (Some c) \<Rightarrow>
               if counterType c = ''rate'' then
                 (case GetMetric newData ''timestamp'' of
                    None \<Rightarrow> Inr newData
                  | Some timestamp \<Rightarrow>
                      (case Divide ar metric timestamp of
                         Inl e \<Rightarrow> Inr newData
                       | Inr m' \<Rightarrow> Inr (put_metric key m' newData)))
               else Inr newData))"

fun second_pass ::
  "'v float64_ops \<Rightarrow> 'v RestPerf \<Rightarrow> string list \<Rightarrow> 'v Matrix \<Rightarrow> error + 'v Matrix" where
  "second_pass ar r [] newData = Inr newData"
| "second_pass ar r (key # keys) newData =
     (case calculate_rate ar r key newData of
        Inl e \<Rightarrow> Inl e
      | Inr newData' \<Rightarrow> second_pass ar r keys newData')"

text \<open>\<open>timestamp.Delta(r.Matrix.GetMetric("timestamp"))\<close>; an error is logged.\<close>

definition timestamp_delta :: "'v float64_ops \<Rightarrow> 'v RestPerf \<Rightarrow> 'v Matrix \<Rightarrow> 'v Matrix" where
  "timestamp_delta ar r newData =
     (case GetMetric newData ''timestamp'' of
        None \<Rightarrow> newData
      | Some timestamp \<Rightarrow>
          (case Delta ar timestamp (GetMetric (Matrix r) ''timestamp'') of
             Inl e \<Rightarrow> newData
           | Inr t' \<Rightarrow> put_metric ''timestamp'' t' newData))"

section \<open>PollData\<close>

text \<open>
  \<open>fetch\<close> stands for the REST call and the parsing of its answer into the empty clone
  (from \<open>rest.BuildHref\<close> down to \<open>getParentOpsCounters\<close>): it returns the error of
  whichever step returns early, or the filled \<open>newData\<close>. It only sets cells and labels
  and adds columns. The self-metrics written to \<open>r.Metadata\<close> are left out.
  The result pairs the collector after the call with what the call returns: an error,
  or \<open>nil\<close> (\<open>None\<close>), or the processed matrix.
\<close>

definition PollData ::
  "'v float64_ops \<Rightarrow> ('v Matrix \<Rightarrow> error + 'v Matrix) \<Rightarrow> 'v RestPerf
     \<Rightarrow> 'v RestPerf \<times> (error + 'v Matrix option)" where
  "PollData ar fetch r =
     (let newData0 = Reset (Clone False True True (Matrix r)) in
      case GetMetric newData0 ''timestamp'' of
        None \<Rightarrow> (r, Inl (ErrConfig ''missing timestamp metric''))
      | Some _ \<Rightarrow>
          (case fetch newData0 of
             Inl e \<Rightarrow> (r, Inl e)
           | Inr newData \<Rightarrow>
               if isCacheEmpty (perfProp r) then
                 (r\<lparr>Matrix := newData, perfProp := (perfProp r)\<lparr>isCacheEmpty := False\<rparr>\<rparr>, Inr None)
               else
                 (let cachedData = Clone True True True newData in
                  case partition_metrics r (metrics newData) newData [] [] of
                    Inl e \<Rightarrow> (r, Inl e)
                  | Inr (newData1, nonDen, den) \<Rightarrow>
                      (let orderedKeys = nonDen @ den;
                           newData2 = timestamp_delta ar r newData1
                       in case first_pass ar r orderedKeys newData2 of
                            Inl e \<Rightarrow> (r, Inl e)
                          | Inr newData3 \<Rightarrow>
                              (case second_pass ar r orderedKeys newData3 of
                                 Inl e \<Rightarrow> (r, Inl e)
                               | Inr newData4 \<Rightarrow> (r\<lparr>Matrix := cachedData\<rparr>, Inr (Some newData4)))))))"

section \<open>Notions used to state the properties of PollData\<close>

text \<open>
  What the loop that sorts the metrics does to the metric under \<open>key\<close>: it sets the unit
  label of a metric that is not named \<open>timestamp\<close> and has a counter, unless the object is
  a workload detail object. The display name, the array flag and the cells stay.
\<close>

definition relabel :: "'v RestPerf \<Rightarrow> string \<Rightarrow> 'v Metric \<Rightarrow> 'v Metric" where
  "relabel r key metric =
     (if mName metric \<noteq> ''timestamp'' \<and> \<not> isWorkloadDetailObject (Query r)
      then (case counterLookup r metric key of
              Inr (Some c) \<Rightarrow> SetLabel ''unit'' (unit c) metric
            | _ \<Rightarrow> metric)
      else metric)"

text \<open>
  The matrix at the moment the first loop over \<open>orderedMetrics\<close> reaches \<open>key\<close>: the
  metrics are sorted, the timestamp delta is taken and the keys before \<open>key\<close> are
  processed.
\<close>

definition state_at_turn ::
  "'v float64_ops \<Rightarrow> 'v RestPerf \<Rightarrow> 'v Matrix \<Rightarrow> string \<Rightarrow> error + 'v Matrix" where
  "state_at_turn ar r newData key =
     (case partition_metrics r (metrics newData) newData [] [] of
        Inl e \<Rightarrow> Inl e
      | Inr (newData1, nonDen, den) \<Rightarrow>
          first_pass ar r (takeWhile (\<lambda>k. k \<noteq> key) (nonDen @ den)) (timestamp_delta ar r newData1))"


text \<open>The same collector with another type for the counter stored under \<open>n\<close>.\<close>

definition with_counterType :: "'v RestPerf \<Rightarrow> string \<Rightarrow> string \<Rightarrow> 'v RestPerf" where
  "with_counterType r n t =
     r\<lparr>perfProp := (perfProp r)\<lparr>counterInfo :=
         (\<lambda>k. if k = n then map_option (\<lambda>c. c\<lparr>counterType := t\<rparr>) (counterInfo (perfProp r) k)
               else counterInfo (perfProp r) k)\<rparr>\<rparr>"

text \<open>
  Into which of the two slices the loop sorts a metric: \<open>orderedNonDenominatorKeys\<close>
  gets the metrics that are not named \<open>timestamp\<close> and whose counter has no
  denominator, \<open>orderedDenominatorKeys\<close> those whose counter has one.
\<close>

definition without_denominator :: "'v RestPerf \<Rightarrow> string \<Rightarrow> 'v Metric \<Rightarrow> bool" where
  "without_denominator r key metric \<longleftrightarrow>
     mName metric \<noteq> ''timestamp'' \<and>
     (case counterLookup r metric key of Inr (Some c) \<Rightarrow> denominator c = [] | _ \<Rightarrow> False)"

definition with_denominator :: "'v RestPerf \<Rightarrow> string \<Rightarrow> 'v Metric \<Rightarrow> bool" where
  "with_denominator r key metric \<longleftrightarrow>
     mName metric \<noteq> ''timestamp'' \<and>
     (case counterLookup r metric key of Inr (Some c) \<Rightarrow> denominator c \<noteq> [] | _ \<Rightarrow> False)"

text \<open>
  The division of the first loop: by \<open>DivideWithThreshold\<close> for a display name ending in
  \<open>latency\<close>, by \<open>Divide\<close> otherwise.
\<close>

definition divide_by_base ::
  "'v float64_ops \<Rightarrow> 'v RestPerf \<Rightarrow> 'v Metric \<Rightarrow> 'v Metric \<Rightarrow> error + 'v Metric" where
  "divide_by_base ar r metric base =
     (if suffix ''latency'' (mName metric)
      then DivideWithThreshold ar metric base (latencyIoReqd (perfProp r))
      else Divide ar metric base)"

section \<open>InitMatrix and the latency threshold\<close>

text \<open>
  \<open>strconv.Atoi\<close> of the Go library on a 64-bit platform: an optional sign, then at least
  one decimal digit and nothing else; a value outside the range of \<open>int\<close> is an error.
\<close>

definition is_digit :: "char \<Rightarrow> bool" where
  "is_digit c \<longleftrightarrow> 48 \<le> (of_char c :: nat) \<and> (of_char c :: nat) \<le> 57"

definition digits_value :: "string \<Rightarrow> int" where
  "digits_value ds = foldl (\<lambda>n c. n * 10 + (int (of_char c) - 48)) 0 ds"

definition Atoi :: "string \<Rightarrow> int option" where
  "Atoi s =
     (let neg = (s \<noteq> [] \<and> hd s = CHR ''-'');
          ds = (if s \<noteq> [] \<and> (hd s = CHR ''-'' \<or> hd s = CHR ''+'') then tl s else s)
      in if ds = [] \<or> \<not> list_all is_digit ds then None
         else (let v = (if neg then - digits_value ds else digits_value ds)
               in if v < - (2 ^ 63) \<or> 2 ^ 63 \<le> v then None else Some v))"

text \<open>\<open>const latencyIoReqd = 10\<close>.\<close>

definition latencyIoReqd_default :: int where
  "latencyIoReqd_default = 10"

text \<open>\<open>loadParamInt\<close>: the parameter when it is there and an integer, else the default.\<close>

definition loadParamInt :: "node \<Rightarrow> string \<Rightarrow> int \<Rightarrow> int" where
  "loadParamInt params param defaultValue =
     (let x = GetChildContentS params param in
      if x \<noteq> [] then (case Atoi x of Some n \<Rightarrow> n | None \<Rightarrow> defaultValue)
      else defaultValue)"

text \<open>\<open>InitMatrix\<close>; \<open>cluster\<close> is \<open>r.Client.Cluster().Name\<close>.\<close>

definition InitMatrix :: "string \<Rightarrow> 'v RestPerf \<Rightarrow> 'v RestPerf" where
  "InitMatrix cluster r =
     (let pp = (perfProp r)\<lparr>latencyIoReqd := loadParamInt (Params r) ''latency_io_reqd'' latencyIoReqd_default,
                             isCacheEmpty := True\<rparr>;
          M1 = SetGlobalLabel ''cluster'' cluster ((Matrix r)\<lparr>Object := PropObject r\<rparr>);
          M2 = (case GetChildS (Params r) ''labels'' of
                  None \<Rightarrow> M1
                | Some ls \<Rightarrow> foldl (\<lambda>M l. SetGlobalLabel (nodeName l) (nodeContent l) M) M1 (nodeChildren ls))
      in r\<lparr>perfProp := pp, Matrix := M2\<rparr>)"

section \<open>PollCounter\<close>

text \<open>
  One element of \<open>records.0.counter_schemas\<close> as \<open>PollCounter\<close> reads it: not an object,
  or an object with its \<open>name\<close>, \<open>description\<close>, \<open>type\<close>, \<open>unit\<close> and
  \<open>denominator.name\<close> (each the empty string when absent).
\<close>

datatype counter_schema =
    NotObject
  | Schema (s_name: string) (s_description: string) (s_type: string) (s_unit: string)
      (s_denominator: string)

text \<open>The first \<open>ForEach\<close>: a denominator of a requested counter is requested too, not exported.\<close>

fun register_denominators ::
  "counter_schema list \<Rightarrow> (string \<times> rest_Metric) list \<Rightarrow> (string \<times> rest_Metric) list" where
  "register_denominators [] ms = ms"
| "register_denominators (NotObject # cs) ms = register_denominators cs ms"
| "register_denominators (Schema n de ty un d # cs) ms =
     register_denominators cs
       (if map_of ms n \<noteq> None \<and> d \<noteq> [] \<and> map_of ms d = None
        then ms @ [(d, \<lparr> Label = [], MName = d, MetricType = [], Exportable = False \<rparr>)]
        else ms)"

definition GetOverride :: "'v RestPerf \<Rightarrow> string \<Rightarrow> string" where
  "GetOverride r c = (case GetChildS (Params r) ''override'' of
                        None \<Rightarrow> []
                      | Some ov \<Rightarrow> GetChildContentS ov c)"

text \<open>The second \<open>ForEach\<close>: the metadata of a requested counter is stored once.\<close>

fun fill_counterInfo :: "'v RestPerf \<Rightarrow> counter_schema list \<Rightarrow> (string \<rightharpoonup> counter) \<Rightarrow> (string \<rightharpoonup> counter)" where
  "fill_counterInfo r [] info = info"
| "fill_counterInfo r (NotObject # cs) info = fill_counterInfo r cs info"
| "fill_counterInfo r (Schema n de ty un d # cs) info =
     fill_counterInfo r cs
       (if map_of (Metrics r) n \<noteq> None \<and> info n = None
        then info(n \<mapsto> \<lparr> name = n, description = de,
                          counterType = (if GetOverride r n \<noteq> [] then GetOverride r n else ty),
                          unit = un, denominator = d \<rparr>)
        else info)"

text \<open>
  The artificial metric that holds the timestamp of each instance's data, created when
  \<open>r.Matrix.GetMetric("timestamp")\<close> is nil. Were \<open>NewMetricFloat64\<close> to fail, \<open>m\<close>
  would be nil and \<open>m.SetProperty\<close> would panic.
\<close>

definition create_timestamp :: "'v Matrix \<Rightarrow> error + 'v Matrix" where
  "create_timestamp M =
     (case GetMetric M ''timestamp'' of
        Some _ \<Rightarrow> Inr M
      | None \<Rightarrow>
          (case NewMetricFloat64 M ''timestamp'' of
             Inl e \<Rightarrow> Inl (Panic ''nil pointer dereference'')
           | Inr (m, M') \<Rightarrow>
               Inr (put_metric ''timestamp'' (m\<lparr>mProperty := ''raw'', mExportable := False\<rparr>) M')))"

text \<open>
  \<open>processWorkLoadCounter\<close>, the loop over \<open>r.Prop.Metrics\<close>: every requested counter
  gets its column, with the display name and the export flag of the template.
\<close>

fun template_metrics :: "(string \<times> rest_Metric) list \<Rightarrow> 'v Matrix \<Rightarrow> error + 'v Matrix" where
  "template_metrics [] M = Inr M"
| "template_metrics ((nm, metric) # rest) M =
     (case GetMetric M nm of
        Some _ \<Rightarrow>
          template_metrics rest
            (modify_metric nm (\<lambda>metr. metr\<lparr>mName := Label metric, mExportable := Exportable metric\<rparr>) M)
      | None \<Rightarrow>
          (case NewMetricFloat64 M nm of
             Inl e \<Rightarrow> Inl (Panic ''nil pointer dereference'')
           | Inr (_, M') \<Rightarrow>
               template_metrics rest
                 (modify_metric nm (\<lambda>metr. metr\<lparr>mName := Label metric, mExportable := Exportable metric\<rparr>) M')))"

text \<open>
  The \<open>ops\<close> column and its metadata, taken from the counter stored under the display
  name of \<open>visits\<close>; a missing entry there is a nil pointer.
\<close>

definition ensure_ops ::
  "string \<Rightarrow> 'v Matrix \<times> (string \<rightharpoonup> counter) \<Rightarrow> error + ('v Matrix \<times> (string \<rightharpoonup> counter))" where
  "ensure_ops visitsName st =
     (case st of (M, info) \<Rightarrow>
        (case GetMetric M ''ops'' of
           Some _ \<Rightarrow> Inr (M, info)
         | None \<Rightarrow>
             (case NewMetricFloat64 M ''ops'' of
                Inl e \<Rightarrow> Inl e
              | Inr (_, M') \<Rightarrow>
                  (case info visitsName of
                     None \<Rightarrow> Inl (Panic ''nil pointer dereference'')
                   | Some vc \<Rightarrow>
                       Inr (M', info(''ops'' \<mapsto> \<lparr> name = ''ops'', description = [],
                                                  counterType = counterType vc, unit = unit vc,
                                                  denominator = [] \<rparr>))))))"

text \<open>The loop over the children of \<open>resource_map\<close>: one latency column per resource layer.\<close>

fun resource_metrics ::
  "string \<Rightarrow> node list \<Rightarrow> 'v Matrix \<times> (string \<rightharpoonup> counter) \<Rightarrow> error + ('v Matrix \<times> (string \<rightharpoonup> counter))" where
  "resource_metrics serviceName [] st = Inr st"
| "resource_metrics serviceName (x # xs) (M, info) =
     (case GetMetric M (nodeName x) of
        Some _ \<Rightarrow> resource_metrics serviceName xs (M, info)
      | None \<Rightarrow>
          (case NewMetricFloat64 M (nodeName x) of
             Inl e \<Rightarrow> Inl e
           | Inr (_, M') \<Rightarrow>
               (case info serviceName of
                  None \<Rightarrow> Inl (Panic ''nil pointer dereference'')
                | Some sc \<Rightarrow>
                    resource_metrics serviceName xs
                      (modify_metric (nodeName x)
                         (\<lambda>m. SetLabel ''resource'' (nodeContent x) (m\<lparr>mName := ''resource_latency''\<rparr>)) M',
                       info(nodeName x \<mapsto> \<lparr> name = ''resource_latency'', description = [],
                                              counterType = counterType sc, unit = unit sc,
                                              denominator = ''ops'' \<rparr>)))))"

text \<open>
  \<open>processWorkLoadCounter\<close>. The result is the collector as the call leaves it, and the
  error it returns if any.
\<close>

definition processWorkLoadCounter :: "'v RestPerf \<Rightarrow> 'v RestPerf \<times> error option" where
  "processWorkLoadCounter r =
     (if isWorkloadDetailObject (Query r) then
        (case template_metrics (Metrics r) (Matrix r) of
           Inl e \<Rightarrow> (r, Some e)
         | Inr M1 \<Rightarrow>
             (case (GetMetric M1 ''service_time'', GetMetric M1 ''wait_time'', GetMetric M1 ''visits'') of
                (Some service, Some wait, Some visits) \<Rightarrow>
                  (case ensure_ops (mName visits) (M1, counterInfo (perfProp r)) of
                     Inl e \<Rightarrow> (r\<lparr>Matrix := M1\<rparr>, Some e)
                   | Inr (M2, info2) \<Rightarrow>
                       (let M3 = modify_metric ''visits'' (\<lambda>m. m\<lparr>mExportable := False\<rparr>)
                                   (modify_metric ''wait_time'' (\<lambda>m. m\<lparr>mExportable := False\<rparr>)
                                      (modify_metric ''service_time'' (\<lambda>m. m\<lparr>mExportable := False\<rparr>) M2));
                            r3 = r\<lparr>Matrix := M3, perfProp := (perfProp r)\<lparr>counterInfo := info2\<rparr>\<rparr>
                        in case GetChildS (Params r) ''resource_map'' of
                             None \<Rightarrow> (r3, Some (ErrMissingParam ''resource_map''))
                           | Some resourceMap \<Rightarrow>
                               (case resource_metrics (mName service) (nodeChildren resourceMap) (M3, info2) of
                                  Inl e \<Rightarrow> (r3, Some e)
                                | Inr (M4, info4) \<Rightarrow>
                                    (r\<lparr>Matrix := M4, perfProp := (perfProp r)\<lparr>counterInfo := info4\<rparr>\<rparr>, None))))
              | _ \<Rightarrow> (r\<lparr>Matrix := M1\<rparr>, Some (ErrMissingParam ''workload metrics''))))
      else (r, None))"

text \<open>
  \<open>PollCounter\<close>. \<open>schemas\<close> stands for the REST call and the parsing of its answer: the
  error of the step that returns early, or the elements of
  \<open>records.0.counter_schemas\<close>. The result is the collector after the call, the matrix
  returned and the error returned.
\<close>

definition PollCounter ::
  "error + counter_schema list \<Rightarrow> 'v RestPerf \<Rightarrow> 'v RestPerf \<times> 'v Matrix option \<times> error option" where
  "PollCounter schemas r =
     (case schemas of
        Inl e \<Rightarrow> (r, None, Some e)
      | Inr cs \<Rightarrow>
          (let r1 = r\<lparr>Metrics := register_denominators cs (Metrics r)\<rparr>;
               r2 = r1\<lparr>perfProp := (perfProp r1)\<lparr>counterInfo :=
                                       fill_counterInfo r1 cs (counterInfo (perfProp r1))\<rparr>\<rparr>
           in case create_timestamp (Matrix r2) of
                Inl e \<Rightarrow> (r2, None, Some e)
              | Inr M \<Rightarrow>
                  (case processWorkLoadCounter (r2\<lparr>Matrix := M\<rparr>) of
                     (r3, err) \<Rightarrow> (r3, Some (Matrix r3), err))))"

text \<open>
  Modelled from the spec (section 4.1, output discipline): export honours the export
  flag of a metric; these are the keys of the columns an exporter renders.
\<close>

definition exported_metrics :: "'v Matrix \<Rightarrow> string list" where
  "exported_metrics M = map fst (filter (\<lambda>(k, m). mExportable m) (metrics M))"

text \<open>
  Notions used to state the properties of \<open>PollCounter\<close>: the entries of the matrix under
  the key \<open>timestamp\<close>; a matrix without a key twice whose column \<open>timestamp\<close> is raw,
  unexported and holds the cells \<open>vs\<close>; and a template none of whose counters named
  \<open>timestamp\<close> is exported.
\<close>

definition timestamp_entries :: "'v Matrix \<Rightarrow> (string \<times> 'v Metric) list" where
  "timestamp_entries M = filter (\<lambda>(k, m). k = ''timestamp'') (metrics M)"

definition timestamp_kept :: "'v option list \<Rightarrow> 'v Matrix \<Rightarrow> bool" where
  "timestamp_kept vs M \<longleftrightarrow>
     distinct (map fst (metrics M)) \<and>
     (case GetMetric M ''timestamp'' of
        None \<Rightarrow> False
      | Some m \<Rightarrow> mProperty m = ''raw'' \<and> \<not> mExportable m \<and> cells m = vs)"

definition not_exported :: "(string \<times> rest_Metric) list \<Rightarrow> bool" where
  "not_exported ms = list_all (\<lambda>(n, metric). n = ''timestamp'' \<longrightarrow> \<not> Exportable metric) ms"

section \<open>The poller: collector selection\<close>

text \<open>
  \<open>cmd/poller/poller.go\<close> is not among the sources; \<open>poller_test.go\<close> is. The three
  functions below are modelled from the specification (sections 3, 4.5, 4.7 and 8) and
  from the tables of the tests, which are the code's own statement of what it returns.
\<close>

text \<open>
  Modelled from the spec: the remote capability record, \<open>conf.Remote\<close> in the tests:
  a version and the flags zapis_exist, is_disaggregated, is_san_optimized, clustered.
  The empty record is Go's zero value.
\<close>

record Remote =
  Version :: string
  ZAPIsExist :: bool
  IsDisaggregated :: bool
  IsSanOptimized :: bool
  IsClustered :: bool

definition empty_Remote :: Remote where
  "empty_Remote = \<lparr> Version = [], ZAPIsExist = False, IsDisaggregated = False,
                     IsSanOptimized = False, IsClustered = False \<rparr>"

text \<open>\<open>conf.Collector\<close>, of which the tests use the field \<open>Name\<close>.\<close>

record Collector =
  Name :: string

text \<open>
  Modelled from the spec: \<open>upgradeCollector\<close>, which is missing from the sources. The
  rules of section 4.5 are applied in the order they are written, the second to the
  result of the first: without ZAPIs, Zapi becomes Rest and ZapiPerf becomes RestPerf;
  then on a disaggregated cluster RestPerf and ZapiPerf become KeyPerf and, if the
  cluster is also SAN-optimized, Zapi becomes Rest. Every other class passes through.
\<close>

definition upgradeCollector :: "Collector \<Rightarrow> Remote \<Rightarrow> Collector" where
  "upgradeCollector c remote =
     (let n1 = (if \<not> ZAPIsExist remote
                then (if Name c = ''Zapi'' then ''Rest''
                      else if Name c = ''ZapiPerf'' then ''RestPerf''
                      else Name c)
                else Name c);
          n2 = (if IsDisaggregated remote
                then (if n1 = ''RestPerf'' \<or> n1 = ''ZapiPerf'' then ''KeyPerf''
                      else if IsSanOptimized remote \<and> n1 = ''Zapi'' then ''Rest''
                      else n1)
                else n1)
      in c\<lparr>Name := n2\<rparr>)"

text \<open>\<open>type objectCollector struct\<close>, of which the tests use \<open>class\<close> and \<open>object\<close>.\<close>

record objectCollector =
  class' :: string
  object :: string

text \<open>
  Modelled from the spec: the overlap table behind \<open>nonOverlappingCollectors\<close>
  (section 4.5 and scenario S2): two classes overlap when they are the same class, or
  both inventory collectors (Zapi, Rest), or both performance collectors (ZapiPerf,
  RestPerf, KeyPerf); performance collectors do not shadow inventory collectors and
  vice versa, and a class outside ONTAP overlaps only itself.
\<close>

definition overlaps :: "string \<Rightarrow> string \<Rightarrow> bool" where
  "overlaps a b \<longleftrightarrow>
     a = b \<or>
     (a \<in> {''Zapi'', ''Rest''} \<and> b \<in> {''Zapi'', ''Rest''}) \<or>
     (a \<in> {''ZapiPerf'', ''RestPerf'', ''KeyPerf''} \<and> b \<in> {''ZapiPerf'', ''RestPerf'', ''KeyPerf''})"

text \<open>
  Modelled from the spec: \<open>nonOverlappingCollectors\<close>, which is missing from the
  sources: the user-declared order wins, a collector is kept unless one kept before it
  overlaps it.
\<close>

definition nonOverlappingCollectors :: "objectCollector list \<Rightarrow> objectCollector list" where
  "nonOverlappingCollectors cs =
     foldl (\<lambda>unique c. if list_ex (\<lambda>u. overlaps (class' u) (class' c)) unique
                        then unique else unique @ [c]) [] cs"



text \<open>\<open>objectCollectorMap\<close> of the tests: one object with its classes in order.\<close>

definition ocm :: "string \<Rightarrow> string list \<Rightarrow> string \<times> objectCollector list" where
  "ocm obj classes = (obj, map (\<lambda>c. \<lparr> class' = c, object = obj \<rparr>) classes)"

definition oc :: "string \<Rightarrow> string \<Rightarrow> objectCollector" where
  "oc c obj = \<lparr> class' = c, object = obj \<rparr>"

text \<open>\<open>ocs\<close> of the tests: collectors of the given classes, of the empty object.\<close>

definition ocs :: "string list \<Rightarrow> objectCollector list" where
  "ocs classes = map (\<lambda>c. \<lparr> class' = c, object = [] \<rparr>) classes"



section \<open>The poller: negotiateONTAPAPI\<close>

text \<open>The part of \<open>Poller\<close> that \<open>negotiateONTAPAPI\<close> writes.\<close>

record Poller =
  remote :: Remote

text \<open>
  Modelled from the spec: \<open>negotiateONTAPAPI\<close>, which is missing from the sources.
  Section 4.7: the capabilities are probed only if an ONTAP collector is enabled, and
  a failure of the probe is not fatal; the function returns nothing, so it cannot fail
  the startup. \<open>TestNegotiateONTAPAPI\<close> says what is stored: the record the probe
  returned, with or without an error (row "ONTAP Collector with Error" expects version
  9.11.1). \<open>isONTAP\<close> is the table of ONTAP collector classes, which the sources do not
  hold. \<open>gatherClusterInfo\<close> is what the probe returns when it is called. The second
  component of the result counts the calls of the probe.
\<close>

definition negotiateONTAPAPI ::
  "(string \<Rightarrow> bool) \<Rightarrow> Collector list \<Rightarrow> Remote \<times> error option \<Rightarrow> Poller \<Rightarrow> Poller \<times> nat" where
  "negotiateONTAPAPI isONTAP cols gatherClusterInfo p =
     (if list_ex (\<lambda>c. isONTAP (Name c)) cols
      then (case gatherClusterInfo of (r, err) \<Rightarrow> (p\<lparr>remote := r\<rparr>, 1))
      else (p, 0))"

text \<open>Modelled from the spec: the ONTAP collector classes named in section 4.5.\<close>

definition ontap_classes :: "string \<Rightarrow> bool" where
  "ontap_classes c \<longleftrightarrow> c \<in> {''Zapi'', ''ZapiPerf'', ''Rest'', ''RestPerf'', ''KeyPerf''}"

section \<open>Sample data\<close>

text \<open>
  Concrete samples on which the model is run: two instances, the synthetic timestamp
  column and five counters, one of each counter type. The previous sample was taken at
  second 100 and the current one at second 160.
\<close>

definition column :: "'v option list \<Rightarrow> 'v Metric" where
  "column vs = \<lparr> mName = ''c'', mProperty = [], mExportable = True, mArray = False,
                 mLabels = [], cells = vs \<rparr>"

definition col :: "string \<Rightarrow> 'v option list \<Rightarrow> string \<times> 'v Metric" where
  "col key vs = (key, \<lparr> mName = key, mProperty = [], mExportable = True, mArray = False,
                        mLabels = [], cells = vs \<rparr>)"

definition ts_col :: "'v option list \<Rightarrow> string \<times> 'v Metric" where
  "ts_col vs = (''timestamp'', \<lparr> mName = ''timestamp'', mProperty = ''raw'', mExportable = False,
                                 mArray = False, mLabels = [], cells = vs \<rparr>)"

definition sample_prev :: "real Matrix" where
  "sample_prev = \<lparr> Object = ''volume'', globalLabels = [], instances = [''vol1'', ''vol2''],
     metrics = [col ''avg_latency'' [Some 5000, Some 8000], col ''busy'' [Some 50, Some 10],
                ts_col [Some 100, Some 100], col ''total_ops'' [Some 1000, Some 2000],
                col ''elapsed'' [Some 100, Some 100], col ''uptime'' [Some 7, Some 7]] \<rparr>"

definition sample_cur :: "real Matrix" where
  "sample_cur = \<lparr> Object = ''volume'', globalLabels = [], instances = [''vol1'', ''vol2''],
     metrics = [col ''avg_latency'' [Some 11000, Some 8600], col ''busy'' [Some 80, Some 40],
                ts_col [Some 160, Some 160], col ''total_ops'' [Some 1600, Some 2300],
                col ''elapsed'' [Some 160, Some 160], col ''uptime'' [Some 9, Some 9]] \<rparr>"

definition cnt :: "string \<Rightarrow> string \<Rightarrow> string \<Rightarrow> counter" where
  "cnt n t d = \<lparr> name = n, description = [], counterType = t, unit = ''none'', denominator = d \<rparr>"

definition sample_info :: "string \<rightharpoonup> counter" where
  "sample_info = [''total_ops'' \<mapsto> cnt ''total_ops'' ''rate'' [],
                  ''elapsed'' \<mapsto> cnt ''elapsed'' ''delta'' [],
                  ''uptime'' \<mapsto> cnt ''uptime'' ''raw'' [],
                  ''avg_latency'' \<mapsto> cnt ''avg_latency'' ''average'' ''total_ops'',
                  ''busy'' \<mapsto> cnt ''busy'' ''percent'' ''elapsed'']"

definition sample_collector :: "bool \<Rightarrow> real Matrix \<Rightarrow> real RestPerf" where
  "sample_collector first M =
     \<lparr> Matrix = M, Params = Node ''volume'' [] [], PropObject = ''volume'',
       Query = ''api/cluster/counter/tables/volume'',
       Metrics = [],
       perfProp = \<lparr> isCacheEmpty = first, counterInfo = sample_info, latencyIoReqd = 10,
                    qosLabels = [] \<rparr> \<rparr>"

text \<open>The matrix the sample run returns.\<close>

definition lcol :: "string \<Rightarrow> 'v option list \<Rightarrow> string \<times> 'v Metric" where
  "lcol key vs = (key, \<lparr> mName = key, mProperty = [], mExportable = True, mArray = False,
                        mLabels = [(''unit'', ''none'')], cells = vs \<rparr>)"

definition sample_out :: "real Matrix" where
  "sample_out = \<lparr> Object = ''volume'', globalLabels = [], instances = [''vol1'', ''vol2''],
     metrics = [lcol ''avg_latency'' [Some 10, Some 2], lcol ''busy'' [Some 50, Some 50],
                ts_col [Some 60, Some 60], lcol ''total_ops'' [Some 10, Some 5],
                lcol ''elapsed'' [Some 60, Some 60], lcol ''uptime'' [Some 9, Some 9]] \<rparr>"


text \<open>The sample collector with a counter \<open>timestamp\<close> of the type raw in \<open>counterInfo\<close>.\<close>

definition sample_collector_ts :: "real RestPerf" where
  "sample_collector_ts =
     (sample_collector False sample_prev)
       \<lparr>perfProp := (perfProp (sample_collector False sample_prev))
          \<lparr>counterInfo := sample_info(''timestamp'' \<mapsto> cnt ''timestamp'' ''raw'' [])\<rparr>\<rparr>"

text \<open>The sample collector before \<open>InitMatrix\<close>, its template setting \<open>latency_io_reqd\<close>.\<close>

definition sample_template :: "real RestPerf" where
  "sample_template = (sample_collector True sample_prev)
     \<lparr>Params := Node ''volume'' [] [Node ''latency_io_reqd'' ''25'' []]\<rparr>"

text \<open>
  A workload-detail collector before its first \<open>PollCounter\<close>, the counter schemas the
  cluster answers with, and the matrix and the collector the call leaves. \<open>extra\<close> are
  further counters of the template.
\<close>

definition tmpl :: "string \<Rightarrow> bool \<Rightarrow> string \<times> rest_Metric" where
  "tmpl n e = (n, \<lparr> Label = n, MName = n, MetricType = [], Exportable = e \<rparr>)"

definition sample_workload :: "(string \<times> rest_Metric) list \<Rightarrow> real RestPerf" where
  "sample_workload extra =
     \<lparr> Matrix = \<lparr> Object = ''qos_detail'', globalLabels = [], instances = [''w1''], metrics = [] \<rparr>,
       Params = Node ''qos_detail'' [] [Node ''resource_map'' [] [Node ''CPU_dblade'' ''backend'' []]],
       PropObject = ''qos_detail'',
       Query = qosDetailQuery,
       Metrics = extra @ [tmpl ''service_time'' True, tmpl ''wait_time'' True, tmpl ''visits'' True],
       perfProp = \<lparr> isCacheEmpty = True, counterInfo = Map.empty, latencyIoReqd = 10,
                    qosLabels = [] \<rparr> \<rparr>"

definition workload_schemas :: "counter_schema list" where
  "workload_schemas =
     [Schema ''service_time'' [] ''rate'' ''microsec'' [],
      Schema ''wait_time'' [] ''rate'' ''microsec'' [],
      Schema ''visits'' [] ''rate'' ''per_sec'' []]"

definition wcol ::
  "string \<Rightarrow> string \<Rightarrow> string \<Rightarrow> bool \<Rightarrow> (string \<times> string) list \<Rightarrow> string \<times> real Metric" where
  "wcol key n p e ls = (key, \<lparr> mName = n, mProperty = p, mExportable = e, mArray = False,
                               mLabels = ls, cells = [None] \<rparr>)"

definition workload_out :: "bool \<Rightarrow> real Matrix" where
  "workload_out e =
     \<lparr> Object = ''qos_detail'', globalLabels = [], instances = [''w1''],
       metrics = [wcol ''timestamp'' ''timestamp'' ''raw'' e [],
                  wcol ''service_time'' ''service_time'' [] False [],
                  wcol ''wait_time'' ''wait_time'' [] False [],
                  wcol ''visits'' ''visits'' [] False [],
                  wcol ''ops'' ''ops'' [] True [],
                  wcol ''CPU_dblade'' ''resource_latency'' [] True [(''resource'', ''backend'')]] \<rparr>"

definition sample_workload_after :: "real RestPerf" where
  "sample_workload_after =
     (sample_workload [])
       \<lparr> Matrix := workload_out False,
         perfProp := (perfProp (sample_workload []))
           \<lparr> counterInfo :=
               [''service_time'' \<mapsto> \<lparr> name = ''service_time'', description = [], counterType = ''rate'',
                                         unit = ''microsec'', denominator = [] \<rparr>,
                ''wait_time'' \<mapsto> \<lparr> name = ''wait_time'', description = [], counterType = ''rate'',
                                      unit = ''microsec'', denominator = [] \<rparr>,
                ''visits'' \<mapsto> \<lparr> name = ''visits'', description = [], counterType = ''rate'',
                                   unit = ''per_sec'', denominator = [] \<rparr>,
                ''ops'' \<mapsto> \<lparr> name = ''ops'', description = [], counterType = ''rate'',
                                unit = ''per_sec'', denominator = [] \<rparr>,
                ''CPU_dblade'' \<mapsto> \<lparr> name = ''resource_latency'', description = [],
                                       counterType = ''rate'', unit = ''microsec'',
                                       denominator = ''ops'' \<rparr>] \<rparr> \<rparr>"

text \<open>
  Small samples of one instance: a matrix of the given columns, a column displayed under
  another name than its key, the result of \<open>PollData\<close> for the counters \<open>info\<close> on the
  previous sample \<open>prev\<close> and the fetched sample \<open>cur\<close>, and the cells it returns under
  a key.
\<close>

definition mini :: "(string \<times> real Metric) list \<Rightarrow> real Matrix" where
  "mini ms = \<lparr> Object = ''volume'', globalLabels = [], instances = [''vol1''], metrics = ms \<rparr>"

definition ncol :: "string \<Rightarrow> string \<Rightarrow> real option list \<Rightarrow> string \<times> real Metric" where
  "ncol key n vs = (key, \<lparr> mName = n, mProperty = [], mExportable = True, mArray = False,
                          mLabels = [], cells = vs \<rparr>)"

definition poll :: "(string \<rightharpoonup> counter) \<Rightarrow> real Matrix \<Rightarrow> real Matrix \<Rightarrow> error + real Matrix option" where
  "poll info prev cur =
     snd (PollData real_ops (\<lambda>_. Inr cur)
            ((sample_collector False prev)
               \<lparr>perfProp := (perfProp (sample_collector False prev))\<lparr>counterInfo := info\<rparr>\<rparr>))"

definition returned_cells :: "error + real Matrix option \<Rightarrow> string \<Rightarrow> real option list option" where
  "returned_cells res key =
     (case res of Inr (Some M) \<Rightarrow> map_option cells (GetMetric M key) | _ \<Rightarrow> None)"

text \<open>The capability records of \<open>TestCollectorUpgrade\<close> and \<open>TestNegotiateONTAPAPI\<close>.\<close>

definition ontap911 :: Remote where
  "ontap911 = empty_Remote\<lparr>Version := ''9.11.1'', ZAPIsExist := True\<rparr>"

definition ontap917 :: Remote where
  "ontap917 = empty_Remote\<lparr>Version := ''9.17.1'', ZAPIsExist := False\<rparr>"

definition asaR2 :: Remote where
  "asaR2 = empty_Remote\<lparr>Version := ''9.16.1'', ZAPIsExist := False, IsDisaggregated := True,
                         IsSanOptimized := True\<rparr>"

definition keyPerf :: Remote where
  "keyPerf = empty_Remote\<lparr>Version := ''9.17.1'', ZAPIsExist := False, IsDisaggregated := True\<rparr>"

definition keyPerfWithZapi :: Remote where
  "keyPerfWithZapi = empty_Remote\<lparr>Version := ''9.17.1'', ZAPIsExist := True, IsDisaggregated := True\<rparr>"

definition remote_9_11_1 :: Remote where
  "remote_9_11_1 = empty_Remote\<lparr>Version := ''9.11.1''\<rparr>"

text \<open>The class \<open>upgradeCollector\<close> returns for the class asked for, as the test reads it.\<close>

definition upgraded :: "string \<Rightarrow> Remote \<Rightarrow> string" where
  "upgraded askFor r = Name (upgradeCollector \<lparr> Name = askFor \<rparr> r)"


section \<open>The matrix arithmetic on the seed scenarios S5 and S6\<close>

lemma seed_S5_delta_under_wrap:
  "map_sum id cells (Delta real_ops (column [Some 150, Some 50]) (Some (column [Some 100, Some 200])))
     = Inr [Some 50, None]"
  by (simp add: Delta_def cellwise_def pad_def delta_cell_def column_def real_ops_def)

lemma seed_S6_latency_threshold:
  "map_sum id cells (DivideWithThreshold real_ops (column [Some 100, Some 100]) (column [Some 5, Some 50]) 10)
     = Inr [Some 0, Some 2]"
  by (simp add: DivideWithThreshold_def cellwise_def pad_def threshold_cell_def column_def real_ops_def)

section \<open>PollData: the first sample\<close>

lemma GetMetric_shape:
  "GetMetric (Reset (Clone False True True M)) key = None \<longleftrightarrow> GetMetric M key = None"
  by (simp add: GetMetric_def Reset_def Clone_def map_of_map split_def map_of_eq_None_iff image_image)

text \<open>
  C5. With the cache of the previous sample empty, \<open>PollData\<close> returns without an error
  exactly when the timestamp column exists and the fetch succeeds; it then stores the
  matrix as fetched as \<open>r.Matrix\<close>, clears \<open>isCacheEmpty\<close>, changes nothing else of the
  collector and returns \<open>nil, nil\<close>. The stored matrix is the fetched one: no delta,
  rate, average or percent was computed on it.
\<close>

theorem PollData_first_sample:
  assumes "isCacheEmpty (perfProp r)"
  shows "PollData ar fetch r = (r', Inr res) \<longleftrightarrow>
         GetMetric (Matrix r) ''timestamp'' \<noteq> None \<and>
         (\<exists>newData. fetch (Reset (Clone False True True (Matrix r))) = Inr newData \<and>
            r' = r\<lparr>Matrix := newData, perfProp := (perfProp r)\<lparr>isCacheEmpty := False\<rparr>\<rparr> \<and>
            res = None)"
proof (cases "GetMetric (Reset (Clone False True True (Matrix r))) ''timestamp''")
  case None
  then show ?thesis using GetMetric_shape[of "Matrix r" "''timestamp''"]
    by (simp add: PollData_def)
next
  case (Some t)
  then have "GetMetric (Matrix r) ''timestamp'' \<noteq> None"
    using GetMetric_shape[of "Matrix r" "''timestamp''"] by simp
  then show ?thesis using Some assms
    by (cases "fetch (Reset (Clone False True True (Matrix r)))") (auto simp: PollData_def)
qed

theorem PollData_first_sample_witness:
  "isCacheEmpty (perfProp (sample_collector True (Reset sample_prev))) \<and>
   PollData real_ops (\<lambda>_. Inr sample_cur) (sample_collector True (Reset sample_prev))
     = (sample_collector False sample_cur, Inr None)"
  using PollData_first_sample[of "sample_collector True (Reset sample_prev)" real_ops
          "\<lambda>_. Inr sample_cur" "sample_collector False sample_cur" None]
  by (simp add: sample_collector_def GetMetric_def Reset_def sample_prev_def ts_col_def col_def)

section \<open>The sample run\<close>

lemmas matrix_defs = GetMetric_def put_metric_def Clone_def Reset_def SetLabel_def
  Delta_def Divide_def DivideWithThreshold_def MultiplyByScalar_def cellwise_def pad_def
  delta_cell_def divide_cell_def threshold_cell_def real_ops_def

lemmas sample_defs = sample_collector_def sample_prev_def sample_cur_def sample_info_def
  col_def ts_col_def cnt_def lcol_def

lemmas poll_defs = poll_def returned_cells_def mini_def ncol_def
  PollData_def timestamp_delta_def process_metric_def calculate_rate_def
  apply_base_def counterLookup_def isWorkloadDetailObject_def qosDetailQuery_def
  qosDetailVolumeQuery_def matrix_defs sample_defs Let_def suffix_def

lemma sample_run:
  "PollData real_ops (\<lambda>_. Inr sample_cur) (sample_collector False sample_prev)
     = (sample_collector False sample_cur, Inr (Some sample_out))"
  by (simp add: PollData_def timestamp_delta_def process_metric_def calculate_rate_def
        apply_base_def counterLookup_def isWorkloadDetailObject_def qosDetailQuery_def
        qosDetailVolumeQuery_def matrix_defs sample_defs sample_out_def Let_def suffix_def)

text \<open>The hypotheses of the theorems on \<open>PollData\<close>, in the sample run.\<close>

lemma sample_facts:
  "\<not> isCacheEmpty (perfProp (sample_collector False sample_prev))"
  "(\<lambda>_. Inr sample_cur) (Reset (Clone False True True (Matrix (sample_collector False sample_prev))))
     = (Inr sample_cur :: error + real Matrix)"
  "distinct (map fst (metrics sample_cur))"
  by (simp_all add: sample_collector_def sample_cur_def col_def ts_col_def)

lemma sample_lookup:
  "counterLookup (sample_collector False sample_prev) (snd (col key vs)) key = Inr (sample_info key)"
  by (simp add: counterLookup_def sample_collector_def col_def)

lemma sample_ts:
  "GetMetric sample_cur ''timestamp'' = Some (snd (ts_col [Some 160, Some 160]))"
  "mName (snd (ts_col [Some 160, Some (160::real)])) = ''timestamp''"
  "GetMetric (Matrix (sample_collector False sample_prev)) ''timestamp''
     = Some (snd (ts_col [Some 100, Some 100]))"
  by (simp_all add: GetMetric_def sample_cur_def sample_prev_def sample_collector_def ts_col_def col_def)

lemma sample_relabel:
  "sample_info key = Some c \<Longrightarrow>
   relabel (sample_collector False sample_prev) key (snd (col key vs))
     = snd (lcol key vs)"
  by (simp add: relabel_def sample_lookup isWorkloadDetailObject_def qosDetailQuery_def
        qosDetailVolumeQuery_def)
     (auto simp: sample_collector_def col_def lcol_def SetLabel_def sample_info_def cnt_def
           split: if_splits)

lemma sample_get:
  "GetMetric sample_cur ''avg_latency'' = Some (snd (col ''avg_latency'' [Some 11000, Some 8600]))"
  "GetMetric sample_cur ''busy'' = Some (snd (col ''busy'' [Some 80, Some 40]))"
  "GetMetric sample_cur ''total_ops'' = Some (snd (col ''total_ops'' [Some 1600, Some 2300]))"
  "GetMetric sample_cur ''elapsed'' = Some (snd (col ''elapsed'' [Some 160, Some 160]))"
  "GetMetric (Matrix (sample_collector False sample_prev)) ''avg_latency''
     = Some (snd (col ''avg_latency'' [Some 5000, Some 8000]))"
  "GetMetric (Matrix (sample_collector False sample_prev)) ''busy''
     = Some (snd (col ''busy'' [Some 50, Some 10]))"
  "GetMetric (Matrix (sample_collector False sample_prev)) ''total_ops''
     = Some (snd (col ''total_ops'' [Some 1000, Some 2000]))"
  "GetMetric (Matrix (sample_collector False sample_prev)) ''elapsed''
     = Some (snd (col ''elapsed'' [Some 100, Some 100]))"
  by (simp_all add: GetMetric_def sample_cur_def sample_prev_def sample_collector_def ts_col_def col_def)

section \<open>PollData: the cached previous sample\<close>

lemma Clone_deep: "Clone True True True M = M"
  by (simp add: Clone_def split_def)

text \<open>
  C9. After a successful \<open>PollData\<close> that is not the first, the collector differs from
  the one before the call in \<open>r.Matrix\<close> alone, and \<open>r.Matrix\<close> is the clone
  \<open>Clone(true, true, true)\<close> of the sample as fetched, taken before the first delta: it
  equals the fetched matrix, whatever the post-processing made of the matrix returned.
\<close>

theorem PollData_caches_raw_sample:
  assumes "\<not> isCacheEmpty (perfProp r)"
      and "PollData ar fetch r = (r', Inr res)"
  shows "\<exists>newData out. fetch (Reset (Clone False True True (Matrix r))) = Inr newData \<and>
           res = Some out \<and>
           r' = r\<lparr>Matrix := Clone True True True newData\<rparr> \<and>
           Matrix r' = newData"
  using assms
  by (auto simp: PollData_def Let_def Clone_deep split: option.splits sum.splits prod.splits)

theorem PollData_caches_raw_sample_witness:
  "\<not> isCacheEmpty (perfProp (sample_collector False sample_prev)) \<and>
   PollData real_ops (\<lambda>_. Inr sample_cur) (sample_collector False sample_prev)
     = (sample_collector False sample_cur, Inr (Some sample_out)) \<and>
   Matrix (sample_collector False sample_cur) = sample_cur \<and>
   GetMetric sample_cur ''total_ops'' \<noteq> GetMetric sample_out ''total_ops''"
proof -
  have h: "\<not> isCacheEmpty (perfProp (sample_collector False sample_prev))"
    by (simp add: sample_collector_def)
  from PollData_caches_raw_sample[OF h sample_run]
  obtain newData where "Inr sample_cur = (Inr newData :: error + real Matrix)"
    and "Matrix (sample_collector False sample_cur) = newData"
    by blast
  then have "Matrix (sample_collector False sample_cur) = sample_cur" by simp
  moreover have "GetMetric sample_cur ''total_ops'' \<noteq> GetMetric sample_out ''total_ops''"
    by (simp add: GetMetric_def sample_cur_def sample_out_def col_def lcol_def ts_col_def)
  ultimately show ?thesis using h sample_run by simp
qed

section \<open>PollData: reads, writes and the order of the steps\<close>

subsection \<open>Reads and writes of a matrix\<close>

lemma map_of_replace:
  "map_of (map (\<lambda>(k, x). if k = key then (k, f x) else (k, x)) xs) k'
     = (if k' = key then map_option f (map_of xs k') else map_of xs k')"
  by (induction xs) auto

lemma GetMetric_modify_metric:
  "GetMetric (modify_metric key f M) k
     = (if k = key then map_option f (GetMetric M k) else GetMetric M k)"
  by (simp add: GetMetric_def modify_metric_def map_of_replace)

lemma GetMetric_put_metric:
  "GetMetric (put_metric key m M) k
     = (if k = key then map_option (\<lambda>_. m) (GetMetric M k) else GetMetric M k)"
  using map_of_replace[of key "\<lambda>_. m" "metrics M" k]
  by (simp add: GetMetric_def put_metric_def)

lemma keys_put_metric: "map fst (metrics (put_metric key m M)) = map fst (metrics M)"
  by (simp add: put_metric_def split_def comp_def)

subsection \<open>What one step of a loop may touch\<close>

lemma apply_base_cases:
  "apply_base ar r property key metric base nd = nd \<or>
   (\<exists>q. apply_base ar r property key metric base nd = put_metric key q nd)"
  by (auto simp: apply_base_def split: sum.splits)

lemma put_put: "put_metric key a (put_metric key b M) = put_metric key a M"
  by (simp add: put_metric_def split_def comp_def)

lemma apply_base_put:
  "\<exists>q. apply_base ar r p key m b (put_metric key x nd) = put_metric key q nd"
  using apply_base_cases[of ar r p key m b "put_metric key x nd"] put_put[of key _ x nd]
  by metis

lemma process_metric_cases:
  assumes "process_metric ar r key nd = Inr nd'"
  shows "nd' = nd \<or> (\<exists>q. nd' = put_metric key q nd)"
proof (cases "GetMetric nd key")
  case None
  then show ?thesis using assms by (simp add: process_metric_def)
next
  case (Some metric)
  show ?thesis
  proof (cases "counterLookup r metric key")
    case (Inl e)
    then show ?thesis using assms Some by (simp add: process_metric_def)
  next
    case (Inr co)
    show ?thesis
    proof (cases co)
      case None
      then show ?thesis using assms Some Inr by (simp add: process_metric_def)
    next
      case (Some c)
      note c = Some
      show ?thesis
      proof (cases "Delta ar metric (GetMetric (Matrix r) key)")
        case (Inl e)
        then show ?thesis using assms \<open>GetMetric nd key = Some metric\<close> Inr c
          by (simp add: process_metric_def Let_def split: if_splits)
      next
        case (Inr m1)
        then show ?thesis
          using assms \<open>GetMetric nd key = Some metric\<close> \<open>counterLookup r metric key = Inr co\<close> c
            apply_base_put[of ar r "counterType c" key m1 _ m1 nd]
          by (auto simp: process_metric_def Let_def split: if_splits option.splits)
      qed
    qed
  qed
qed

lemma process_metric_other:
  "process_metric ar r key nd = Inr nd' \<Longrightarrow> k \<noteq> key \<Longrightarrow> GetMetric nd' k = GetMetric nd k"
  using process_metric_cases[of ar r key nd nd'] by (auto simp: GetMetric_put_metric)

lemma process_metric_dom:
  "process_metric ar r key nd = Inr nd' \<Longrightarrow> GetMetric nd' k = None \<longleftrightarrow> GetMetric nd k = None"
  using process_metric_cases[of ar r key nd nd'] by (auto simp: GetMetric_put_metric split: if_splits)

lemma calculate_rate_cases:
  "calculate_rate ar r key nd = Inr nd' \<Longrightarrow> nd' = nd \<or> (\<exists>q. nd' = put_metric key q nd)"
  by (auto simp: calculate_rate_def split: option.splits sum.splits if_splits)

lemma calculate_rate_other:
  "calculate_rate ar r key nd = Inr nd' \<Longrightarrow> k \<noteq> key \<Longrightarrow> GetMetric nd' k = GetMetric nd k"
  using calculate_rate_cases[of ar r key nd nd'] by (auto simp: GetMetric_put_metric)

lemma first_pass_other:
  "first_pass ar r keys nd = Inr nd' \<Longrightarrow> k \<notin> set keys \<Longrightarrow> GetMetric nd' k = GetMetric nd k"
proof (induction keys arbitrary: nd)
  case Nil
  then show ?case by simp
next
  case (Cons a keys)
  then obtain nd1 where s: "process_metric ar r a nd = Inr nd1" and t: "first_pass ar r keys nd1 = Inr nd'"
    by (auto split: sum.splits)
  from Cons.IH[OF t] Cons.prems(2) have "GetMetric nd' k = GetMetric nd1 k" by simp
  then show ?case using process_metric_other[OF s, of k] Cons.prems(2) by simp
qed

lemma second_pass_other:
  "second_pass ar r keys nd = Inr nd' \<Longrightarrow> k \<notin> set keys \<Longrightarrow> GetMetric nd' k = GetMetric nd k"
proof (induction keys arbitrary: nd)
  case Nil
  then show ?case by simp
next
  case (Cons a keys)
  then obtain nd1 where s: "calculate_rate ar r a nd = Inr nd1" and t: "second_pass ar r keys nd1 = Inr nd'"
    by (auto split: sum.splits)
  from Cons.IH[OF t] Cons.prems(2) have "GetMetric nd' k = GetMetric nd1 k" by simp
  then show ?case using calculate_rate_other[OF s, of k] Cons.prems(2) by simp
qed

lemma first_pass_append:
  "first_pass ar r (xs @ ys) nd =
     (case first_pass ar r xs nd of Inl e \<Rightarrow> Inl e | Inr nd1 \<Rightarrow> first_pass ar r ys nd1)"
  by (induction xs arbitrary: nd) (auto split: sum.splits)

lemma second_pass_append:
  "second_pass ar r (xs @ ys) nd =
     (case second_pass ar r xs nd of Inl e \<Rightarrow> Inl e | Inr nd1 \<Rightarrow> second_pass ar r ys nd1)"
  by (induction xs arbitrary: nd) (auto split: sum.splits)

text \<open>The value of a key after the whole loop is the one its own step gave it.\<close>

lemma first_pass_turn:
  assumes "first_pass ar r (xs @ key # ys) nd = Inr nd3" and "key \<notin> set ys"
  shows "\<exists>ndx ndk. first_pass ar r xs nd = Inr ndx \<and> process_metric ar r key ndx = Inr ndk \<and>
           GetMetric nd3 key = GetMetric ndk key"
proof -
  from assms(1) obtain ndx where x: "first_pass ar r xs nd = Inr ndx"
    and rest: "first_pass ar r (key # ys) ndx = Inr nd3"
    by (auto simp: first_pass_append split: sum.splits)
  from rest obtain ndk where k: "process_metric ar r key ndx = Inr ndk"
    and y: "first_pass ar r ys ndk = Inr nd3"
    by (auto split: sum.splits)
  from first_pass_other[OF y assms(2)] x k show ?thesis by simp
qed

lemma second_pass_turn:
  assumes "second_pass ar r (xs @ key # ys) nd = Inr nd3" and "key \<notin> set ys"
  shows "\<exists>ndx ndk. second_pass ar r xs nd = Inr ndx \<and> calculate_rate ar r key ndx = Inr ndk \<and>
           GetMetric nd3 key = GetMetric ndk key"
proof -
  from assms(1) obtain ndx where x: "second_pass ar r xs nd = Inr ndx"
    and rest: "second_pass ar r (key # ys) ndx = Inr nd3"
    by (auto simp: second_pass_append split: sum.splits)
  from rest obtain ndk where k: "calculate_rate ar r key ndx = Inr ndk"
    and y: "second_pass ar r ys ndk = Inr nd3"
    by (auto split: sum.splits)
  from second_pass_other[OF y assms(2)] x k show ?thesis by simp
qed


subsection \<open>The loop that sorts the metrics\<close>

lemma partition_metrics_keys:
  "partition_metrics r es nd a b = Inr (nd', a', b') \<Longrightarrow>
   a' = a @ map fst (filter (\<lambda>(k, m). without_denominator r k m) es) \<and>
   b' = b @ map fst (filter (\<lambda>(k, m). with_denominator r k m) es)"
proof (induction es arbitrary: nd a b)
  case Nil
  then show ?case by simp
next
  case (Cons e es)
  obtain key metric where e: "e = (key, metric)" by (cases e)
  show ?case
  proof (cases "mName metric = ''timestamp''")
    case True
    with Cons e show ?thesis by (simp add: without_denominator_def with_denominator_def)
  next
    case False
    note nm = False
    show ?thesis
    proof (cases "counterLookup r metric key")
      case (Inl x)
      with Cons.prems e nm show ?thesis by simp
    next
      case (Inr co)
      show ?thesis
      proof (cases co)
        case None
        with Cons Inr e nm show ?thesis by (simp add: without_denominator_def with_denominator_def)
      next
        case (Some c)
        show ?thesis
        proof (cases "denominator c = []")
          case True
          with Cons.prems e nm Inr Some obtain nd1 where
            "partition_metrics r es nd1 (a @ [key]) b = Inr (nd', a', b')"
            by (simp add: Let_def)
          from Cons.IH[OF this] show ?thesis using e nm Inr Some True
            by (simp add: without_denominator_def with_denominator_def)
        next
          case False
          with Cons.prems e nm Inr Some obtain nd1 where
            "partition_metrics r es nd1 a (b @ [key]) = Inr (nd', a', b')"
            by (simp add: Let_def)
          from Cons.IH[OF this] show ?thesis using e nm Inr Some False
            by (simp add: without_denominator_def with_denominator_def)
        qed
      qed
    qed
  qed
qed

lemma relabel_unchanged:
  "mName metric = ''timestamp'' \<or> isWorkloadDetailObject (Query r) \<or>
   (\<forall>c. counterLookup r metric key \<noteq> Inr (Some c)) \<Longrightarrow> relabel r key metric = metric"
  by (auto simp: relabel_def split: sum.splits option.splits)

lemma relabel_changed:
  "mName metric \<noteq> ''timestamp'' \<Longrightarrow> \<not> isWorkloadDetailObject (Query r) \<Longrightarrow>
   counterLookup r metric key = Inr (Some c) \<Longrightarrow> relabel r key metric = SetLabel ''unit'' (unit c) metric"
  by (simp add: relabel_def)

lemma partition_metrics_matrix:
  "partition_metrics r es nd a b = Inr (nd', a', b') \<Longrightarrow> distinct (map fst es) \<Longrightarrow>
   GetMetric nd' k =
     (case map_of es k of
        None \<Rightarrow> GetMetric nd k
      | Some m \<Rightarrow>
          if mName m \<noteq> ''timestamp'' \<and> \<not> isWorkloadDetailObject (Query r) \<and>
             (\<exists>c. counterLookup r m k = Inr (Some c)) \<and> GetMetric nd k \<noteq> None
          then Some (relabel r k m)
          else GetMetric nd k)"
proof (induction es arbitrary: nd a b)
  case Nil
  then show ?case by simp
next
  case (Cons e es)
  obtain key metric where e: "e = (key, metric)" by (cases e)
  from Cons.prems(2) e have notin: "map_of es key = None" and d: "distinct (map fst es)"
    by (auto simp: map_of_eq_None_iff)
  show ?case
  proof (cases "mName metric \<noteq> ''timestamp'' \<and> \<not> isWorkloadDetailObject (Query r) \<and>
             (\<exists>c. counterLookup r metric key = Inr (Some c))")
    case False
    then have "\<exists>a1 b1. partition_metrics r es nd a1 b1 = Inr (nd', a', b')"
      using Cons.prems(1) e
      by (auto simp: Let_def split: if_splits sum.splits option.splits)
    then obtain a1 b1 where p: "partition_metrics r es nd a1 b1 = Inr (nd', a', b')" by blast
    from Cons.IH[OF p d] show ?thesis using e False notin
      by (auto split: option.splits)
  next
    case True
    then obtain c where c: "counterLookup r metric key = Inr (Some c)" by blast
    with True have rl: "relabel r key metric = SetLabel ''unit'' (unit c) metric"
      by (simp add: relabel_changed)
    have "\<exists>a1 b1. partition_metrics r es (put_metric key (relabel r key metric) nd) a1 b1
                 = Inr (nd', a', b')"
      using Cons.prems(1) e True c rl
      by (auto simp: Let_def split: if_splits)
    then obtain a1 b1 where
      p: "partition_metrics r es (put_metric key (relabel r key metric) nd) a1 b1 = Inr (nd', a', b')"
      by blast
    from Cons.IH[OF p d] show ?thesis using e True notin
      by (auto simp: GetMetric_put_metric split: option.splits)
  qed
qed

lemma partition_metrics_relabel:
  assumes "partition_metrics r (metrics nd) nd a b = Inr (nd', a', b')"
      and "distinct (map fst (metrics nd))"
  shows "GetMetric nd' k = map_option (relabel r k) (GetMetric nd k)"
  using partition_metrics_matrix[OF assms, of k] relabel_unchanged[of _ r k]
  by (auto simp: GetMetric_def split: option.splits)


subsection \<open>What the steps keep of a metric\<close>

lemma counterLookup_cong:
  "mArray m' = mArray m \<Longrightarrow> counterLookup r m' key = counterLookup r m key"
  by (simp add: counterLookup_def)

lemma SetLabel_keeps [simp]:
  "mName (SetLabel k v m) = mName m" "mArray (SetLabel k v m) = mArray m"
  "cells (SetLabel k v m) = cells m" "mProperty (SetLabel k v m) = mProperty m"
  "mExportable (SetLabel k v m) = mExportable m"
  by (simp_all add: SetLabel_def)

lemma relabel_keeps [simp]:
  "mName (relabel r key m) = mName m" "mArray (relabel r key m) = mArray m"
  "cells (relabel r key m) = cells m"
  by (auto simp: relabel_def split: sum.splits option.splits)

lemma counterLookup_relabel [simp]:
  "counterLookup r (relabel r key m) key' = counterLookup r m key'"
  by (simp add: counterLookup_def)

lemma cellwise_keeps [simp]:
  "mName (cellwise f m s) = mName m" "mArray (cellwise f m s) = mArray m"
  by (simp_all add: cellwise_def)

lemma Delta_Some: "Delta ar m (Some p) = Inr (cellwise (delta_cell ar) m p)"
  by (simp add: Delta_def)

lemma Delta_keeps:
  "Delta ar m prev = Inr dm \<Longrightarrow> mName dm = mName m \<and> mArray dm = mArray m"
  by (auto simp: Delta_def split: option.splits)

subsection \<open>PollData after the first sample\<close>

lemma PollData_later_sample:
  assumes "\<not> isCacheEmpty (perfProp r)"
      and "fetch (Reset (Clone False True True (Matrix r))) = Inr newData"
      and "PollData ar fetch r = (r', Inr res)"
  shows "\<exists>newData1 nonDen den newData3 out.
           partition_metrics r (metrics newData) newData [] [] = Inr (newData1, nonDen, den) \<and>
           first_pass ar r (nonDen @ den) (timestamp_delta ar r newData1) = Inr newData3 \<and>
           second_pass ar r (nonDen @ den) newData3 = Inr out \<and>
           res = Some out \<and> GetMetric (Matrix r) ''timestamp'' \<noteq> None"
proof -
  have "GetMetric (Reset (Clone False True True (Matrix r))) ''timestamp'' \<noteq> None"
    using assms(3) by (auto simp: PollData_def Let_def split: option.splits)
  then have ts: "GetMetric (Matrix r) ''timestamp'' \<noteq> None"
    using GetMetric_shape[of "Matrix r" "''timestamp''"] by simp
  show ?thesis using assms ts
    by (auto simp: PollData_def Let_def split: option.splits sum.splits prod.splits)
qed

lemma not_sorted_twice: "\<not> (without_denominator r k m \<and> with_denominator r k m)"
  by (auto simp: without_denominator_def with_denominator_def split: sum.splits option.splits)

lemma mem_filtered_keys:
  "k \<in> set (map fst (filter (\<lambda>(k, m). P k m) es)) \<longleftrightarrow> (\<exists>m. (k, m) \<in> set es \<and> P k m)"
  by (induction es) auto

lemma ordered_keys_distinct:
  assumes "distinct (map fst es)"
  shows "distinct (map fst (filter (\<lambda>(k, m). without_denominator r k m) es) @
                   map fst (filter (\<lambda>(k, m). with_denominator r k m) es))"
proof -
  have a: "distinct (map fst (filter (\<lambda>(k, m). without_denominator r k m) es))"
    and b: "distinct (map fst (filter (\<lambda>(k, m). with_denominator r k m) es))"
    using assms by (simp_all add: distinct_map_filter)
  have uniq: "\<And>k m m'. (k, m) \<in> set es \<Longrightarrow> (k, m') \<in> set es \<Longrightarrow> m = m'"
    using assms by (meson eq_key_imp_eq_value)
  have "k \<notin> set (map fst (filter (\<lambda>(k, m). with_denominator r k m) es))"
    if "k \<in> set (map fst (filter (\<lambda>(k, m). without_denominator r k m) es))" for k
  proof
    assume "k \<in> set (map fst (filter (\<lambda>(k, m). with_denominator r k m) es))"
    then obtain m' where m': "(k, m') \<in> set es" "with_denominator r k m'"
      using mem_filtered_keys[of k "with_denominator r" es] by blast
    from that obtain m where m: "(k, m) \<in> set es" "without_denominator r k m"
      using mem_filtered_keys[of k "without_denominator r" es] by blast
    from uniq[OF m(1) m'(1)] m(2) m'(2) not_sorted_twice[of r k m] show False by simp
  qed
  then have "set (map fst (filter (\<lambda>(k, m). without_denominator r k m) es)) \<inter>
        set (map fst (filter (\<lambda>(k, m). with_denominator r k m) es)) = {}"
    by blast
  with a b show ?thesis by simp
qed

lemma sorted_somewhere:
  "without_denominator r k m \<or> with_denominator r k m \<longleftrightarrow>
     mName m \<noteq> ''timestamp'' \<and> (\<exists>c. counterLookup r m k = Inr (Some c))"
  by (auto simp: without_denominator_def with_denominator_def split: sum.splits option.splits)

lemma ordered_keys_member:
  assumes "distinct (map fst (metrics nd))"
  shows "key \<in> set (map fst (filter (\<lambda>(k, m). without_denominator r k m) (metrics nd)) @
                   map fst (filter (\<lambda>(k, m). with_denominator r k m) (metrics nd)))
         \<longleftrightarrow> (\<exists>m c. GetMetric nd key = Some m \<and> mName m \<noteq> ''timestamp'' \<and>
                     counterLookup r m key = Inr (Some c))"
proof -
  have "key \<in> set (map fst (filter (\<lambda>(k, m). without_denominator r k m) (metrics nd)) @
                   map fst (filter (\<lambda>(k, m). with_denominator r k m) (metrics nd)))
        \<longleftrightarrow> (\<exists>m. (key, m) \<in> set (metrics nd) \<and>
                  (without_denominator r key m \<or> with_denominator r key m))"
    using mem_filtered_keys[of key "without_denominator r" "metrics nd"]
          mem_filtered_keys[of key "with_denominator r" "metrics nd"]
    by auto
  also have "\<dots> \<longleftrightarrow> (\<exists>m. GetMetric nd key = Some m \<and>
                  (without_denominator r key m \<or> with_denominator r key m))"
    using assms by (simp add: GetMetric_def)
  finally show ?thesis unfolding sorted_somewhere by blast
qed

lemma split_at_key:
  assumes "key \<in> set ks" and "distinct ks"
  shows "ks = takeWhile (\<lambda>k. k \<noteq> key) ks @ key # tl (dropWhile (\<lambda>k. k \<noteq> key) ks) \<and>
         key \<notin> set (takeWhile (\<lambda>k. k \<noteq> key) ks) \<and>
         key \<notin> set (tl (dropWhile (\<lambda>k. k \<noteq> key) ks))"
proof -
  from assms(1) have dw: "dropWhile (\<lambda>k. k \<noteq> key) ks = key # tl (dropWhile (\<lambda>k. k \<noteq> key) ks)"
    by (metis (mono_tags, lifting) dropWhile_eq_Nil_conv hd_dropWhile list.collapse)
  then have eq: "ks = takeWhile (\<lambda>k. k \<noteq> key) ks @ key # tl (dropWhile (\<lambda>k. k \<noteq> key) ks)"
    by (metis takeWhile_dropWhile_id)
  have a: "key \<notin> set (takeWhile (\<lambda>k. k \<noteq> key) ks)"
    by (auto dest: set_takeWhileD)
  from eq assms(2) have "distinct (takeWhile (\<lambda>k. k \<noteq> key) ks @ key # tl (dropWhile (\<lambda>k. k \<noteq> key) ks))"
    by metis
  then have "key \<notin> set (tl (dropWhile (\<lambda>k. k \<noteq> key) ks))" by simp
  with eq a show ?thesis by blast
qed

lemma timestamp_delta_other:
  "k \<noteq> ''timestamp'' \<Longrightarrow> GetMetric (timestamp_delta ar r nd) k = GetMetric nd k"
  by (auto simp: timestamp_delta_def GetMetric_put_metric split: option.splits sum.splits)

lemma ops_keep:
  "Divide ar m s = Inr q \<Longrightarrow> mName q = mName m \<and> mArray q = mArray m"
  "DivideWithThreshold ar m s t = Inr q \<Longrightarrow> mName q = mName m \<and> mArray q = mArray m"
  "MultiplyByScalar ar m n = Inr q \<Longrightarrow> mName q = mName m \<and> mArray q = mArray m"
  by (auto simp: Divide_def DivideWithThreshold_def MultiplyByScalar_def)

lemma second_pass_not_rate:
  "second_pass ar r ks nd = Inr out \<Longrightarrow> GetMetric nd key = Some q \<Longrightarrow>
   counterLookup r q key = Inr (Some c) \<Longrightarrow> counterType c \<noteq> ''rate'' \<Longrightarrow>
   GetMetric out key = Some q"
proof (induction ks arbitrary: nd)
  case Nil
  then show ?case by simp
next
  case (Cons a ks)
  then obtain nd1 where s: "calculate_rate ar r a nd = Inr nd1" and t: "second_pass ar r ks nd1 = Inr out"
    by (auto split: sum.splits)
  have "GetMetric nd1 key = Some q"
  proof (cases "a = key")
    case True
    with s Cons.prems(2-4) have "nd1 = nd" by (simp add: calculate_rate_def)
    with Cons.prems(2) show ?thesis by simp
  next
    case False
    with calculate_rate_other[OF s, of key] Cons.prems(2) show ?thesis by simp
  qed
  from Cons.IH[OF t this Cons.prems(3,4)] show ?case .
qed

text \<open>The state in which the first loop finds the metric of a key it processes.\<close>

lemma turn_setup:
  assumes part: "partition_metrics r (metrics newData) newData [] [] = Inr (newData1, nonDen, den)"
      and dist: "distinct (map fst (metrics newData))"
      and m: "GetMetric newData key = Some m" "mName m \<noteq> ''timestamp''" "key \<noteq> ''timestamp''"
      and c: "counterLookup r m key = Inr (Some c)"
      and fp: "first_pass ar r (nonDen @ den) (timestamp_delta ar r newData1) = Inr newData3"
  shows "\<exists>S Sk. state_at_turn ar r newData key = Inr S \<and>
           GetMetric S key = Some (relabel r key m) \<and>
           process_metric ar r key S = Inr Sk \<and>
           GetMetric newData3 key = GetMetric Sk key"
proof -
  let ?ks = "nonDen @ den"
  let ?xs = "takeWhile (\<lambda>k. k \<noteq> key) ?ks"
  let ?ys = "tl (dropWhile (\<lambda>k. k \<noteq> key) ?ks)"
  from partition_metrics_keys[OF part]
  have ks: "?ks = map fst (filter (\<lambda>(k, m). without_denominator r k m) (metrics newData)) @
                  map fst (filter (\<lambda>(k, m). with_denominator r k m) (metrics newData))"
    by simp
  have dks: "distinct ?ks" unfolding ks by (rule ordered_keys_distinct[OF dist])
  have mem: "key \<in> set ?ks" unfolding ks ordered_keys_member[OF dist] using m c by blast
  from split_at_key[OF mem dks] have sp: "?ks = ?xs @ key # ?ys"
    and nx: "key \<notin> set ?xs" and ny: "key \<notin> set ?ys" by blast+
  from fp sp have "first_pass ar r (?xs @ key # ?ys) (timestamp_delta ar r newData1) = Inr newData3"
    by metis
  from first_pass_turn[OF this ny] obtain S Sk where
    S: "first_pass ar r ?xs (timestamp_delta ar r newData1) = Inr S"
    and Sk: "process_metric ar r key S = Inr Sk"
    and eq: "GetMetric newData3 key = GetMetric Sk key" by blast
  have "GetMetric S key = GetMetric (timestamp_delta ar r newData1) key"
    by (rule first_pass_other[OF S nx])
  also have "\<dots> = GetMetric newData1 key" using m(3) by (simp add: timestamp_delta_other)
  also have "\<dots> = Some (relabel r key m)"
    using partition_metrics_relabel[OF part dist, of key] m(1) by simp
  finally have g: "GetMetric S key = Some (relabel r key m)" .
  have "state_at_turn ar r newData key = Inr S" using part S by (simp add: state_at_turn_def)
  with g Sk eq show ?thesis by blast
qed

text \<open>A metric the first loop does not process keeps its relabelled value.\<close>

lemma not_processed:
  assumes part: "partition_metrics r (metrics newData) newData [] [] = Inr (newData1, nonDen, den)"
      and dist: "distinct (map fst (metrics newData))"
      and m: "GetMetric newData key = Some m" "key \<noteq> ''timestamp''"
      and no: "mName m = ''timestamp'' \<or> (\<forall>c. counterLookup r m key \<noteq> Inr (Some c))"
      and fp: "first_pass ar r (nonDen @ den) (timestamp_delta ar r newData1) = Inr newData3"
      and sp: "second_pass ar r (nonDen @ den) newData3 = Inr out"
  shows "GetMetric out key = Some m"
proof -
  from partition_metrics_keys[OF part]
  have ks: "nonDen @ den = map fst (filter (\<lambda>(k, m). without_denominator r k m) (metrics newData)) @
                  map fst (filter (\<lambda>(k, m). with_denominator r k m) (metrics newData))"
    by simp
  have nmem: "key \<notin> set (nonDen @ den)" unfolding ks ordered_keys_member[OF dist] using m no by auto
  have "GetMetric out key = GetMetric newData3 key" by (rule second_pass_other[OF sp nmem])
  also have "\<dots> = GetMetric (timestamp_delta ar r newData1) key" by (rule first_pass_other[OF fp nmem])
  also have "\<dots> = GetMetric newData1 key" using m(2) by (simp add: timestamp_delta_other)
  also have "\<dots> = Some (relabel r key m)"
    using partition_metrics_relabel[OF part dist, of key] m(1) by simp
  also have "relabel r key m = m" using no by (auto intro: relabel_unchanged)
  finally show ?thesis .
qed

text \<open>
  C6 as stated, for every metric whose counter has the type raw, fails on the column
  under the key \<open>timestamp\<close>. \<open>PollCounter\<close> creates it with the property raw, and
  \<open>PollData\<close> takes its delta before the first loop, whatever \<open>counterInfo\<close> holds: in
  the sample run, and in the same run with a counter \<open>timestamp\<close> of the type raw in
  \<open>counterInfo\<close>, the column fetched as 160 is returned as 60.
\<close>

theorem PollData_raw_timestamp_counterexample:
  "PollData real_ops (\<lambda>_. Inr sample_cur) (sample_collector False sample_prev)
     = (sample_collector False sample_cur, Inr (Some sample_out)) \<and>
   snd (PollData real_ops (\<lambda>_. Inr sample_cur) sample_collector_ts) = Inr (Some sample_out) \<and>
   counterLookup sample_collector_ts (snd (ts_col [Some 160, Some 160])) ''timestamp''
     = Inr (Some (cnt ''timestamp'' ''raw'' [])) \<and>
   mProperty (snd (ts_col [Some 160, Some (160::real)])) = ''raw'' \<and>
   GetMetric sample_cur ''timestamp'' = Some (snd (ts_col [Some 160, Some 160])) \<and>
   GetMetric sample_out ''timestamp'' = Some (snd (ts_col [Some 60, Some 60])) \<and>
   cells (snd (ts_col [Some 60, Some (60::real)])) \<noteq> cells (snd (ts_col [Some 160, Some (160::real)]))"
proof -
  have "snd (PollData real_ops (\<lambda>_. Inr sample_cur) sample_collector_ts) = Inr (Some sample_out)"
    by (simp add: PollData_def timestamp_delta_def process_metric_def calculate_rate_def
        apply_base_def counterLookup_def isWorkloadDetailObject_def qosDetailQuery_def
        qosDetailVolumeQuery_def matrix_defs sample_defs sample_out_def Let_def suffix_def
        sample_collector_ts_def)
  moreover have "counterLookup sample_collector_ts (snd (ts_col [Some 160, Some 160])) ''timestamp''
     = Inr (Some (cnt ''timestamp'' ''raw'' []))"
    by (simp add: counterLookup_def sample_collector_ts_def ts_col_def)
  ultimately show ?thesis using sample_run
    by (simp add: GetMetric_def sample_cur_def sample_out_def ts_col_def col_def lcol_def)
qed

text \<open>
  C6, amended. In a successful \<open>PollData\<close> that is not the first, every metric other
  than the one under the key \<open>timestamp\<close> whose counter has the type raw is returned
  with the cells it was fetched with: no delta, division, threshold or scaling touches
  them. All the loop does to it is to set its unit label.
\<close>

theorem PollData_raw_verbatim:
  assumes "\<not> isCacheEmpty (perfProp r)"
      and "fetch (Reset (Clone False True True (Matrix r))) = Inr newData"
      and "PollData ar fetch r = (r', Inr res)"
      and "distinct (map fst (metrics newData))"
      and "key \<noteq> ''timestamp''"
      and "GetMetric newData key = Some m"
      and "counterLookup r m key = Inr (Some c)"
      and "counterType c = ''raw''"
  shows "\<exists>out. res = Some out \<and> GetMetric out key = Some (relabel r key m) \<and>
               cells (relabel r key m) = cells m"
proof -
  from PollData_later_sample[OF assms(1-3)] obtain newData1 nonDen den newData3 out where
    part: "partition_metrics r (metrics newData) newData [] [] = Inr (newData1, nonDen, den)"
    and fp: "first_pass ar r (nonDen @ den) (timestamp_delta ar r newData1) = Inr newData3"
    and sp: "second_pass ar r (nonDen @ den) newData3 = Inr out"
    and res: "res = Some out" by blast
  have "GetMetric out key = Some (relabel r key m)"
  proof (cases "mName m = ''timestamp''")
    case True
    then have "relabel r key m = m" by (simp add: relabel_unchanged)
    with not_processed[OF part assms(4,6,5) _ fp sp] True show ?thesis by simp
  next
    case False
    from turn_setup[OF part assms(4,6) False assms(5,7) fp] obtain S Sk where
      g: "GetMetric S key = Some (relabel r key m)"
      and Sk: "process_metric ar r key S = Inr Sk"
      and eq: "GetMetric newData3 key = GetMetric Sk key" by blast
    from Sk g assms(7,8) have "Sk = S" by (simp add: process_metric_def)
    with eq g have "GetMetric newData3 key = Some (relabel r key m)" by simp
    from second_pass_not_rate[OF sp this] assms(7,8) show ?thesis by simp
  qed
  with res show ?thesis by simp
qed

text \<open>The raw column \<open>uptime\<close> of the sample run.\<close>

theorem PollData_raw_verbatim_witness:
  "\<not> isCacheEmpty (perfProp (sample_collector False sample_prev)) \<and>
   distinct (map fst (metrics sample_cur)) \<and>
   PollData real_ops (\<lambda>_. Inr sample_cur) (sample_collector False sample_prev)
     = (sample_collector False sample_cur, Inr (Some sample_out)) \<and>
   GetMetric sample_cur ''uptime'' = Some (snd (col ''uptime'' [Some 9, Some 9])) \<and>
   counterLookup (sample_collector False sample_prev) (snd (col ''uptime'' [Some 9, Some 9])) ''uptime''
     = Inr (Some (cnt ''uptime'' ''raw'' [])) \<and>
   GetMetric sample_out ''uptime'' = Some (snd (lcol ''uptime'' [Some 9, Some 9])) \<and>
   cells (snd (lcol ''uptime'' [Some 9, Some (9::real)])) = cells (snd (col ''uptime'' [Some 9, Some (9::real)]))"
proof -
  let ?r = "sample_collector False sample_prev"
  let ?m = "snd (col ''uptime'' [Some 9, Some (9::real)])"
  have g: "GetMetric sample_cur ''uptime'' = Some ?m"
    by (simp add: GetMetric_def sample_cur_def col_def ts_col_def)
  have c: "counterLookup ?r ?m ''uptime'' = Inr (Some (cnt ''uptime'' ''raw'' []))"
    by (simp add: sample_lookup sample_info_def)
  have rl: "relabel ?r ''uptime'' ?m = snd (lcol ''uptime'' [Some 9, Some 9])"
    by (simp add: relabel_def c isWorkloadDetailObject_def qosDetailQuery_def qosDetailVolumeQuery_def)
       (simp add: sample_collector_def col_def lcol_def SetLabel_def cnt_def)
  from PollData_raw_verbatim[OF sample_facts(1,2) sample_run sample_facts(3) _ g c]
  have "GetMetric sample_out ''uptime'' = Some (relabel ?r ''uptime'' ?m) \<and>
        cells (relabel ?r ''uptime'' ?m) = cells ?m"
    by (simp add: cnt_def)
  then show ?thesis using sample_facts(1,3) sample_run g c rl by simp
qed

lemma put_same_key: "GetMetric nd key = Some x \<Longrightarrow> GetMetric (put_metric key q nd) key = Some q"
  by (simp add: GetMetric_put_metric)

text \<open>The step of the first loop on an average or a percent whose base counter is there.\<close>

lemma process_average_percent:
  assumes g: "GetMetric S key = Some mm"
      and c: "counterLookup r mm key = Inr (Some c)"
      and ty: "counterType c = ''average'' \<or> counterType c = ''percent''"
      and p: "GetMetric (Matrix r) key = Some p"
      and b: "GetMetric (put_metric key (cellwise (delta_cell ar) mm p) S) (denominator c) = Some base"
  shows "\<exists>dm q q'. Delta ar mm (Some p) = Inr dm \<and>
           (if suffix ''latency'' (mName mm)
            then DivideWithThreshold ar dm base (latencyIoReqd (perfProp r))
            else Divide ar dm base) = Inr q \<and>
           MultiplyByScalar ar q 100 = Inr q' \<and>
           process_metric ar r key S
             = Inr (put_metric key (if counterType c = ''average'' then q else q') S)"
proof -
  let ?dm = "cellwise (delta_cell ar) mm p"
  have d: "Delta ar mm (Some p) = Inr ?dm" by (simp add: Delta_Some)
  obtain q where q: "(if suffix ''latency'' (mName mm)
            then DivideWithThreshold ar ?dm base (latencyIoReqd (perfProp r))
            else Divide ar ?dm base) = Inr q"
    by (cases "suffix ''latency'' (mName mm)") (simp_all add: DivideWithThreshold_def Divide_def)
  obtain q' where q': "MultiplyByScalar ar q 100 = Inr q'" by (simp add: MultiplyByScalar_def)
  have ab: "apply_base ar r (counterType c) key ?dm base (put_metric key ?dm S)
          = put_metric key (if counterType c = ''average'' then q else q') S"
    using ty q q' by (auto simp: apply_base_def put_put)
  have "process_metric ar r key S
          = Inr (apply_base ar r (counterType c) key ?dm base (put_metric key ?dm S))"
    using g c ty p b d by (auto simp: process_metric_def Let_def)
  with ab d q q' show ?thesis by auto
qed

lemma process_rate_delta:
  assumes g: "GetMetric S key = Some mm"
      and c: "counterLookup r mm key = Inr (Some c)"
      and ty: "counterType c = ''rate'' \<or> counterType c = ''delta''"
      and p: "GetMetric (Matrix r) key = Some p"
  shows "\<exists>dm. Delta ar mm (Some p) = Inr dm \<and> process_metric ar r key S = Inr (put_metric key dm S)"
  using assms by (auto simp: process_metric_def Let_def Delta_Some)

lemma first_pass_key:
  assumes "first_pass ar r ks T = Inr nd3" and "key \<in> set ks" and "distinct ks"
  shows "\<exists>S Sk. first_pass ar r (takeWhile (\<lambda>k. k \<noteq> key) ks) T = Inr S \<and>
           GetMetric S key = GetMetric T key \<and>
           process_metric ar r key S = Inr Sk \<and>
           GetMetric nd3 key = GetMetric Sk key"
proof -
  let ?xs = "takeWhile (\<lambda>k. k \<noteq> key) ks"
  let ?ys = "tl (dropWhile (\<lambda>k. k \<noteq> key) ks)"
  from split_at_key[OF assms(2,3)] have sp: "ks = ?xs @ key # ?ys"
    and nx: "key \<notin> set ?xs" and ny: "key \<notin> set ?ys" by blast+
  from assms(1) sp have "first_pass ar r (?xs @ key # ?ys) T = Inr nd3" by metis
  from first_pass_turn[OF this ny] obtain S Sk where
    S: "first_pass ar r ?xs T = Inr S"
    and Sk: "process_metric ar r key S = Inr Sk"
    and eq: "GetMetric nd3 key = GetMetric Sk key" by blast
  from first_pass_other[OF S nx] S Sk eq show ?thesis by blast
qed

lemma second_pass_key:
  assumes "second_pass ar r ks T = Inr nd3" and "key \<in> set ks" and "distinct ks"
  shows "\<exists>S Sk. second_pass ar r (takeWhile (\<lambda>k. k \<noteq> key) ks) T = Inr S \<and>
           GetMetric S key = GetMetric T key \<and>
           calculate_rate ar r key S = Inr Sk \<and>
           GetMetric nd3 key = GetMetric Sk key"
proof -
  let ?xs = "takeWhile (\<lambda>k. k \<noteq> key) ks"
  let ?ys = "tl (dropWhile (\<lambda>k. k \<noteq> key) ks)"
  from split_at_key[OF assms(2,3)] have sp: "ks = ?xs @ key # ?ys"
    and nx: "key \<notin> set ?xs" and ny: "key \<notin> set ?ys" by blast+
  from assms(1) sp have "second_pass ar r (?xs @ key # ?ys) T = Inr nd3" by metis
  from second_pass_turn[OF this ny] obtain S Sk where
    S: "second_pass ar r ?xs T = Inr S"
    and Sk: "calculate_rate ar r key S = Inr Sk"
    and eq: "GetMetric nd3 key = GetMetric Sk key" by blast
  from second_pass_other[OF S nx] S Sk eq show ?thesis by blast
qed

lemma first_pass_dom:
  "first_pass ar r ks nd = Inr nd' \<Longrightarrow> GetMetric nd' k = None \<longleftrightarrow> GetMetric nd k = None"
proof (induction ks arbitrary: nd)
  case Nil
  then show ?case by simp
next
  case (Cons a ks)
  then obtain nd1 where s: "process_metric ar r a nd = Inr nd1" and t: "first_pass ar r ks nd1 = Inr nd'"
    by (auto split: sum.splits)
  from Cons.IH[OF t] process_metric_dom[OF s, of k] show ?case by simp
qed

lemma timestamp_delta_dom:
  "GetMetric (timestamp_delta ar r nd) k = None \<longleftrightarrow> GetMetric nd k = None"
  by (auto simp: timestamp_delta_def GetMetric_put_metric split: option.splits sum.splits if_splits)

lemma without_denominator_iff:
  "without_denominator r k m \<longleftrightarrow>
     mName m \<noteq> ''timestamp'' \<and> (\<exists>c. counterLookup r m k = Inr (Some c) \<and> denominator c = [])"
proof (cases "counterLookup r m k")
  case (Inl e)
  then show ?thesis by (simp add: without_denominator_def)
next
  case (Inr co)
  then show ?thesis by (cases co) (simp_all add: without_denominator_def)
qed

text \<open>The facts about the sorted keys that the theorems share.\<close>

lemma sorted_keys:
  assumes part: "partition_metrics r (metrics newData) newData [] [] = Inr (newData1, nonDen, den)"
      and dist: "distinct (map fst (metrics newData))"
  shows "nonDen = map fst (filter (\<lambda>(k, m). without_denominator r k m) (metrics newData))"
    and "den = map fst (filter (\<lambda>(k, m). with_denominator r k m) (metrics newData))"
    and "distinct (nonDen @ den)"
    and "key \<in> set (nonDen @ den) \<longleftrightarrow>
           (\<exists>m c. GetMetric newData key = Some m \<and> mName m \<noteq> ''timestamp'' \<and>
                  counterLookup r m key = Inr (Some c))"
    and "key \<in> set nonDen \<longleftrightarrow>
           (\<exists>m c. GetMetric newData key = Some m \<and> mName m \<noteq> ''timestamp'' \<and>
                  counterLookup r m key = Inr (Some c) \<and> denominator c = [])"
    and "GetMetric newData1 key = map_option (relabel r key) (GetMetric newData key)"
proof -
  from partition_metrics_keys[OF part]
  show a: "nonDen = map fst (filter (\<lambda>(k, m). without_denominator r k m) (metrics newData))"
    and b: "den = map fst (filter (\<lambda>(k, m). with_denominator r k m) (metrics newData))"
    by simp_all
  show "distinct (nonDen @ den)" unfolding a b by (rule ordered_keys_distinct[OF dist])
  show "key \<in> set (nonDen @ den) \<longleftrightarrow>
           (\<exists>m c. GetMetric newData key = Some m \<and> mName m \<noteq> ''timestamp'' \<and>
                  counterLookup r m key = Inr (Some c))"
    unfolding a b by (rule ordered_keys_member[OF dist])
  have "key \<in> set nonDen \<longleftrightarrow> (\<exists>m. (key, m) \<in> set (metrics newData) \<and> without_denominator r key m)"
    unfolding a using mem_filtered_keys[of key "without_denominator r" "metrics newData"] by simp
  also have "\<dots> \<longleftrightarrow> (\<exists>m. GetMetric newData key = Some m \<and> without_denominator r key m)"
    using dist by (simp add: GetMetric_def)
  also have "\<dots> \<longleftrightarrow> (\<exists>m c. GetMetric newData key = Some m \<and> mName m \<noteq> ''timestamp'' \<and>
                  counterLookup r m key = Inr (Some c) \<and> denominator c = [])"
    unfolding without_denominator_iff by blast
  finally show "key \<in> set nonDen \<longleftrightarrow>
           (\<exists>m c. GetMetric newData key = Some m \<and> mName m \<noteq> ''timestamp'' \<and>
                  counterLookup r m key = Inr (Some c) \<and> denominator c = [])" .
  show "GetMetric newData1 key = map_option (relabel r key) (GetMetric newData key)"
    by (rule partition_metrics_relabel[OF part dist])
qed

text \<open>The timestamp column carries its delta from before the first loop to the end.\<close>

lemma timestamp_column:
  assumes part: "partition_metrics r (metrics newData) newData [] [] = Inr (newData1, nonDen, den)"
      and dist: "distinct (map fst (metrics newData))"
      and t: "GetMetric newData ''timestamp'' = Some t" "mName t = ''timestamp''"
      and pt: "GetMetric (Matrix r) ''timestamp'' = Some pt"
  shows "Delta ar t (GetMetric (Matrix r) ''timestamp'') = Inr (cellwise (delta_cell ar) t pt)"
    and "GetMetric (timestamp_delta ar r newData1) ''timestamp'' = Some (cellwise (delta_cell ar) t pt)"
    and "''timestamp'' \<notin> set (nonDen @ den)"
proof -
  show "Delta ar t (GetMetric (Matrix r) ''timestamp'') = Inr (cellwise (delta_cell ar) t pt)"
    using pt by (simp add: Delta_Some)
  have "relabel r ''timestamp'' t = t" using t(2) by (simp add: relabel_unchanged)
  then have "GetMetric newData1 ''timestamp'' = Some t"
    using sorted_keys(6)[OF part dist, of "''timestamp''"] t(1) by simp
  then show "GetMetric (timestamp_delta ar r newData1) ''timestamp'' = Some (cellwise (delta_cell ar) t pt)"
    using pt by (simp add: timestamp_delta_def Delta_Some GetMetric_put_metric)
  show "''timestamp'' \<notin> set (nonDen @ den)"
    unfolding sorted_keys(4)[OF part dist] using t by auto
qed

lemma rate_column:
  assumes part: "partition_metrics r (metrics newData) newData [] [] = Inr (newData1, nonDen, den)"
      and dist: "distinct (map fst (metrics newData))"
      and t: "GetMetric newData ''timestamp'' = Some t" "mName t = ''timestamp''"
      and pt: "GetMetric (Matrix r) ''timestamp'' = Some pt"
      and fp: "first_pass ar r (nonDen @ den) (timestamp_delta ar r newData1) = Inr newData3"
      and sp: "second_pass ar r (nonDen @ den) newData3 = Inr out"
      and m: "GetMetric newData key = Some m" "mName m \<noteq> ''timestamp''"
      and c: "counterLookup r m key = Inr (Some c)" "counterType c = ''rate''"
      and p: "GetMetric (Matrix r) key = Some p"
  shows "\<exists>dm q. Delta ar (relabel r key m) (Some p) = Inr dm \<and> GetMetric newData3 key = Some dm \<and>
           Divide ar dm (cellwise (delta_cell ar) t pt) = Inr q \<and> GetMetric out key = Some q"
proof -
  let ?ks = "nonDen @ den"
  let ?dts = "cellwise (delta_cell ar) t pt"
  note sk = sorted_keys[OF part dist]
  note tc = timestamp_column[OF part dist t pt]
  have kt: "key \<noteq> ''timestamp''" using m t by auto
  have mem: "key \<in> set ?ks" unfolding sk(4) using m c by blast
  from first_pass_key[OF fp mem sk(3)] obtain S Sk where
    g0: "GetMetric S key = GetMetric (timestamp_delta ar r newData1) key"
    and Sk: "process_metric ar r key S = Inr Sk"
    and eq: "GetMetric newData3 key = GetMetric Sk key" by blast
  have g: "GetMetric S key = Some (relabel r key m)"
    using g0 kt sk(6)[of key] m(1) by (simp add: timestamp_delta_other)
  from process_rate_delta[OF g _ _ p, where c = c and ar = ar] c obtain dm where
    dm: "Delta ar (relabel r key m) (Some p) = Inr dm"
    and st: "process_metric ar r key S = Inr (put_metric key dm S)" by auto
  from st Sk have "Sk = put_metric key dm S" by simp
  with eq g have n3: "GetMetric newData3 key = Some dm"
    by (simp add: GetMetric_put_metric)
  from second_pass_key[OF sp mem sk(3)] obtain S2 S2k where
    S2: "second_pass ar r (takeWhile (\<lambda>k. k \<noteq> key) ?ks) newData3 = Inr S2"
    and g2: "GetMetric S2 key = GetMetric newData3 key"
    and S2k: "calculate_rate ar r key S2 = Inr S2k"
    and eq2: "GetMetric out key = GetMetric S2k key" by blast
  have "''timestamp'' \<notin> set (takeWhile (\<lambda>k. k \<noteq> key) ?ks)"
    using tc(3) by (auto dest: set_takeWhileD)
  from second_pass_other[OF S2 this]
  have "GetMetric S2 ''timestamp'' = GetMetric newData3 ''timestamp''" .
  also have "\<dots> = GetMetric (timestamp_delta ar r newData1) ''timestamp''"
    by (rule first_pass_other[OF fp tc(3)])
  finally have ts2: "GetMetric S2 ''timestamp'' = Some ?dts" using tc(2) by simp
  have cl: "counterLookup r dm key = Inr (Some c)"
    using Delta_keeps[OF dm] c(1) by (simp add: counterLookup_def)
  obtain q where q: "Divide ar dm ?dts = Inr q" by (simp add: Divide_def)
  have "calculate_rate ar r key S2 = Inr (put_metric key q S2)"
    using g2 n3 cl c(2) ts2 q by (simp add: calculate_rate_def)
  with S2k have "S2k = put_metric key q S2" by simp
  with eq2 g2 n3 have "GetMetric out key = Some q" by (simp add: GetMetric_put_metric)
  with dm n3 q show ?thesis by blast
qed

text \<open>
  C2 as stated, for every metric whose counter has the type rate, has the delta divided
  by the timestamp delta. A rate column that is new in the sample has no delta: its
  fetched cells are divided by the timestamp delta. A rate counter displayed as
  \<open>timestamp\<close> is never sorted and is returned as fetched. Where the column under the
  key \<open>timestamp\<close> is displayed under another name and has a counter, the first loop
  takes its delta again and the rate is divided by that.
\<close>

theorem PollData_rate_counterexample:
  "GetMetric (mini [ts_col [Some 100]]) ''total_ops'' = None \<and>
   Delta real_ops (snd (col ''total_ops'' [Some 1600])) (GetMetric (mini [ts_col [Some 100]]) ''total_ops'')
     = Inl (ErrOther ''no previous column'') \<and>
   returned_cells
     (poll [''total_ops'' \<mapsto> cnt ''total_ops'' ''rate'' []]
        (mini [ts_col [Some 100]])
        (mini [ts_col [Some 160], col ''total_ops'' [Some 1600]])) ''total_ops''
     = Some [Some (1600 / (160 - 100))] \<and>
   returned_cells
     (poll [''total_ops'' \<mapsto> cnt ''total_ops'' ''rate'' []]
        (mini [ts_col [Some 100], ncol ''total_ops'' ''timestamp'' [Some 1000]])
        (mini [ts_col [Some 160], ncol ''total_ops'' ''timestamp'' [Some 1600]])) ''total_ops''
     = Some [Some 1600] \<and>
   returned_cells
     (poll [''timestamp'' \<mapsto> cnt ''timestamp'' ''delta'' [],
            ''total_ops'' \<mapsto> cnt ''total_ops'' ''rate'' []]
        (mini [ncol ''timestamp'' ''ts'' [Some 10], col ''total_ops'' [Some 1000]])
        (mini [ncol ''timestamp'' ''ts'' [Some 160], col ''total_ops'' [Some 1600]])) ''total_ops''
     = Some [Some ((1600 - 1000) / (160 - 10 - 10))] \<and>
   returned_cells
     (poll [''total_ops'' \<mapsto> cnt ''total_ops'' ''rate'' []]
        (mini [ts_col [Some 100], col ''total_ops'' [Some 1000]])
        (mini [ts_col [Some 160], col ''total_ops'' [Some 1600]])) ''total_ops''
     = Some [Some ((1600 - 1000) / (160 - 100))] \<and>
   1600 / (160 - 100) \<noteq> (1600 - 1000) / (160 - (100::real)) \<and>
   1600 \<noteq> (1600 - 1000) / (160 - (100::real)) \<and>
   (1600 - 1000) / (160 - 10 - 10) \<noteq> (1600 - 1000) / (160 - (10::real))"
  by (simp add: poll_defs)

text \<open>
  C2, amended. In a successful \<open>PollData\<close> that is not the first and whose timestamp
  column is displayed as \<open>timestamp\<close>, the keys are processed in the order
  \<open>nonDen @ den\<close>: first every metric whose counter has no denominator, then every
  metric whose counter has one (each group in the order the map is visited). The delta
  of the timestamp column is taken before the first loop starts. A metric not displayed
  as \<open>timestamp\<close> whose counter has the type rate and whose column is in the previous
  sample leaves the first loop with its delta and nothing else, and gets divided by the
  timestamp delta in the second loop; that quotient is what is returned.
\<close>

theorem PollData_processing_order:
  assumes "\<not> isCacheEmpty (perfProp r)"
      and "fetch (Reset (Clone False True True (Matrix r))) = Inr newData"
      and "PollData ar fetch r = (r', Inr res)"
      and "distinct (map fst (metrics newData))"
      and "GetMetric newData ''timestamp'' = Some t"
      and "mName t = ''timestamp''"
  shows "\<exists>newData1 nonDen den newData3 out dts.
           res = Some out \<and>
           partition_metrics r (metrics newData) newData [] [] = Inr (newData1, nonDen, den) \<and>
           nonDen = map fst (filter (\<lambda>(k, m). without_denominator r k m) (metrics newData)) \<and>
           den = map fst (filter (\<lambda>(k, m). with_denominator r k m) (metrics newData)) \<and>
           Delta ar t (GetMetric (Matrix r) ''timestamp'') = Inr dts \<and>
           GetMetric (timestamp_delta ar r newData1) ''timestamp'' = Some dts \<and>
           first_pass ar r (nonDen @ den) (timestamp_delta ar r newData1) = Inr newData3 \<and>
           second_pass ar r (nonDen @ den) newData3 = Inr out \<and>
           (\<forall>key m c p.
              GetMetric newData key = Some m \<and> mName m \<noteq> ''timestamp'' \<and>
              counterLookup r m key = Inr (Some c) \<and> counterType c = ''rate'' \<and>
              GetMetric (Matrix r) key = Some p \<longrightarrow>
              (\<exists>dm q. Delta ar (relabel r key m) (Some p) = Inr dm \<and>
                      GetMetric newData3 key = Some dm \<and>
                      Divide ar dm dts = Inr q \<and>
                      GetMetric out key = Some q))"
proof -
  from PollData_later_sample[OF assms(1-3)] obtain newData1 nonDen den newData3 out where
    part: "partition_metrics r (metrics newData) newData [] [] = Inr (newData1, nonDen, den)"
    and fp: "first_pass ar r (nonDen @ den) (timestamp_delta ar r newData1) = Inr newData3"
    and sp: "second_pass ar r (nonDen @ den) newData3 = Inr out"
    and res: "res = Some out"
    and "GetMetric (Matrix r) ''timestamp'' \<noteq> None" by blast
  then obtain pt where pt: "GetMetric (Matrix r) ''timestamp'' = Some pt" by auto
  note sk = sorted_keys[OF part assms(4)]
  note tc = timestamp_column[OF part assms(4,5,6) pt]
  have rate: "\<forall>key m c p.
              GetMetric newData key = Some m \<and> mName m \<noteq> ''timestamp'' \<and>
              counterLookup r m key = Inr (Some c) \<and> counterType c = ''rate'' \<and>
              GetMetric (Matrix r) key = Some p \<longrightarrow>
              (\<exists>dm q. Delta ar (relabel r key m) (Some p) = Inr dm \<and>
                      GetMetric newData3 key = Some dm \<and>
                      Divide ar dm (cellwise (delta_cell ar) t pt) = Inr q \<and>
                      GetMetric out key = Some q)"
    using rate_column[OF part assms(4,5,6) pt fp sp] by blast
  show ?thesis
    using res part sk(1,2) tc(1,2) fp sp rate by blast
qed

text \<open>The sorted keys of the sample run, and its rate \<open>total_ops\<close>.\<close>

theorem PollData_processing_order_witness:
  "\<not> isCacheEmpty (perfProp (sample_collector False sample_prev)) \<and>
   distinct (map fst (metrics sample_cur)) \<and>
   GetMetric sample_cur ''timestamp'' = Some (snd (ts_col [Some 160, Some 160])) \<and>
   mName (snd (ts_col [Some 160, Some (160::real)])) = ''timestamp'' \<and>
   PollData real_ops (\<lambda>_. Inr sample_cur) (sample_collector False sample_prev)
     = (sample_collector False sample_cur, Inr (Some sample_out)) \<and>
   map fst (filter (\<lambda>(k, m). without_denominator (sample_collector False sample_prev) k m)
              (metrics sample_cur)) = [''total_ops'', ''elapsed'', ''uptime''] \<and>
   map fst (filter (\<lambda>(k, m). with_denominator (sample_collector False sample_prev) k m)
              (metrics sample_cur)) = [''avg_latency'', ''busy''] \<and>
   GetMetric sample_cur ''total_ops'' = Some (snd (col ''total_ops'' [Some 1600, Some 2300])) \<and>
   GetMetric sample_prev ''total_ops'' = Some (snd (col ''total_ops'' [Some 1000, Some 2000])) \<and>
   GetMetric sample_out ''total_ops'' = Some (snd (lcol ''total_ops'' [Some 10, Some 5]))"
proof -
  let ?r = "sample_collector False sample_prev"
  let ?m = "snd (col ''total_ops'' [Some 1600, Some (2300::real)])"
  let ?p = "snd (col ''total_ops'' [Some 1000, Some (2000::real)])"
  have g: "GetMetric sample_cur ''total_ops'' = Some ?m"
    by (simp add: GetMetric_def sample_cur_def col_def ts_col_def)
  have gp: "GetMetric sample_prev ''total_ops'' = Some ?p"
    by (simp add: GetMetric_def sample_prev_def col_def ts_col_def)
  have p: "GetMetric (Matrix ?r) ''total_ops'' = Some ?p"
    using gp by (simp add: sample_collector_def)
  have c: "counterLookup ?r ?m ''total_ops'' = Inr (Some (cnt ''total_ops'' ''rate'' []))"
    by (simp add: sample_lookup sample_info_def)
  have nd: "map fst (filter (\<lambda>(k, m). without_denominator ?r k m) (metrics sample_cur))
              = [''total_ops'', ''elapsed'', ''uptime'']"
    by (simp add: without_denominator_def counterLookup_def sample_defs)
  have dn: "map fst (filter (\<lambda>(k, m). with_denominator ?r k m) (metrics sample_cur))
              = [''avg_latency'', ''busy'']"
    by (simp add: with_denominator_def counterLookup_def sample_defs)
  from PollData_processing_order[OF sample_facts(1,2) sample_run sample_facts(3) sample_ts(1,2)]
  obtain newData3 out dts where
    out: "Some sample_out = Some out"
    and dts: "Delta real_ops (snd (ts_col [Some 160, Some 160])) (GetMetric (Matrix ?r) ''timestamp'')
                = Inr dts"
    and rate: "\<forall>key m c p.
              GetMetric sample_cur key = Some m \<and> mName m \<noteq> ''timestamp'' \<and>
              counterLookup ?r m key = Inr (Some c) \<and> counterType c = ''rate'' \<and>
              GetMetric (Matrix ?r) key = Some p \<longrightarrow>
              (\<exists>dm q. Delta real_ops (relabel ?r key m) (Some p) = Inr dm \<and>
                      GetMetric newData3 key = Some dm \<and>
                      Divide real_ops dm dts = Inr q \<and>
                      GetMetric out key = Some q)"
    by blast
  have "mName ?m \<noteq> ''timestamp'' \<and> counterType (cnt ''total_ops'' ''rate'' []) = ''rate''"
    by (simp add: col_def cnt_def)
  with rate g c p obtain dm q where
    dm: "Delta real_ops (relabel ?r ''total_ops'' ?m) (Some ?p) = Inr dm"
    and q: "Divide real_ops dm dts = Inr q"
    and oq: "GetMetric out ''total_ops'' = Some q" by blast
  have rl: "relabel ?r ''total_ops'' ?m = snd (lcol ''total_ops'' [Some 1600, Some 2300])"
    by (rule sample_relabel) (simp add: sample_info_def)
  from dts have dtsv: "dts = snd (ts_col [Some 60, Some 60])"
    by (simp add: sample_ts(3) Delta_def cellwise_def pad_def delta_cell_def real_ops_def ts_col_def)
  from dm rl have dmv: "dm = snd (lcol ''total_ops'' [Some 600, Some 300])"
    by (simp add: Delta_def cellwise_def pad_def delta_cell_def real_ops_def col_def lcol_def)
  from q dtsv dmv have "q = snd (lcol ''total_ops'' [Some 10, Some 5])"
    by (simp add: Divide_def cellwise_def pad_def divide_cell_def real_ops_def ts_col_def lcol_def)
  with oq out have "GetMetric sample_out ''total_ops'' = Some (snd (lcol ''total_ops'' [Some 10, Some 5]))"
    by simp
  then show ?thesis using sample_facts(1,3) sample_ts(1,2) sample_run nd dn g gp by simp
qed

lemma state_at_turn_dom:
  assumes part: "partition_metrics r (metrics newData) newData [] [] = Inr (newData1, nonDen, den)"
      and dist: "distinct (map fst (metrics newData))"
      and S: "state_at_turn ar r newData key = Inr S"
  shows "GetMetric S k = None \<longleftrightarrow> GetMetric newData k = None"
proof -
  from S part have "first_pass ar r (takeWhile (\<lambda>k. k \<noteq> key) (nonDen @ den))
                      (timestamp_delta ar r newData1) = Inr S"
    by (simp add: state_at_turn_def)
  from first_pass_dom[OF this, of k] show ?thesis
    using sorted_keys(6)[OF part dist, of k] by (simp add: timestamp_delta_dom)
qed

text \<open>The column of an average or a percent in the matrix returned.\<close>

lemma average_percent_column:
  assumes part: "partition_metrics r (metrics newData) newData [] [] = Inr (newData1, nonDen, den)"
      and dist: "distinct (map fst (metrics newData))"
      and fp: "first_pass ar r (nonDen @ den) (timestamp_delta ar r newData1) = Inr newData3"
      and sp: "second_pass ar r (nonDen @ den) newData3 = Inr out"
      and m: "GetMetric newData key = Some m" "mName m \<noteq> ''timestamp''" "key \<noteq> ''timestamp''"
      and c: "counterLookup r m key = Inr (Some c)"
      and ty: "counterType c = ''average'' \<or> counterType c = ''percent''"
      and p: "GetMetric (Matrix r) key = Some p"
      and b: "GetMetric newData (denominator c) \<noteq> None"
  shows "\<exists>S dm base q q'.
           state_at_turn ar r newData key = Inr S \<and>
           GetMetric S key = Some (relabel r key m) \<and>
           Delta ar (relabel r key m) (Some p) = Inr dm \<and>
           GetMetric (put_metric key dm S) (denominator c) = Some base \<and>
           (if suffix ''latency'' (mName m)
            then DivideWithThreshold ar dm base (latencyIoReqd (perfProp r))
            else Divide ar dm base) = Inr q \<and>
           MultiplyByScalar ar q 100 = Inr q' \<and>
           process_metric ar r key S = Inr (put_metric key (if counterType c = ''average'' then q else q') S) \<and>
           GetMetric out key = Some (if counterType c = ''average'' then q else q')"
proof -
  from turn_setup[OF part dist m c fp] obtain S Sk where
    S: "state_at_turn ar r newData key = Inr S"
    and g: "GetMetric S key = Some (relabel r key m)"
    and Sk: "process_metric ar r key S = Inr Sk"
    and eq: "GetMetric newData3 key = GetMetric Sk key" by blast
  let ?dm = "cellwise (delta_cell ar) (relabel r key m) p"
  have "GetMetric S (denominator c) \<noteq> None"
    using state_at_turn_dom[OF part dist S, of "denominator c"] b by simp
  then have "GetMetric (put_metric key ?dm S) (denominator c) \<noteq> None"
    by (auto simp: GetMetric_put_metric)
  then obtain base where base: "GetMetric (put_metric key ?dm S) (denominator c) = Some base"
    by auto
  have cl: "counterLookup r (relabel r key m) key = Inr (Some c)" using c by simp
  from process_average_percent[OF g cl ty p base] obtain dm q q' where
    dm: "Delta ar (relabel r key m) (Some p) = Inr dm"
    and q: "(if suffix ''latency'' (mName (relabel r key m))
            then DivideWithThreshold ar dm base (latencyIoReqd (perfProp r))
            else Divide ar dm base) = Inr q"
    and q': "MultiplyByScalar ar q 100 = Inr q'"
    and st: "process_metric ar r key S
               = Inr (put_metric key (if counterType c = ''average'' then q else q') S)"
    by blast
  let ?final = "if counterType c = ''average'' then q else q'"
  from dm have dme: "dm = ?dm" by (simp add: Delta_Some)
  from st Sk have "Sk = put_metric key ?final S" by simp
  with eq g have n3: "GetMetric newData3 key = Some ?final" by (simp add: GetMetric_put_metric)
  have "mArray q = mArray dm"
    using q ops_keep(1)[of ar dm base q] ops_keep(2)[of ar dm base _ q]
    by (auto split: if_splits)
  moreover have "mArray q' = mArray q" using q' ops_keep(3) by blast
  moreover have "mArray dm = mArray m" using Delta_keeps[OF dm] by simp
  ultimately have "mArray ?final = mArray m" by simp
  then have clf: "counterLookup r ?final key = Inr (Some c)"
    using c by (simp add: counterLookup_def)
  have nr: "counterType c \<noteq> ''rate''" using ty by auto
  from second_pass_not_rate[OF sp n3 clf nr] have "GetMetric out key = Some ?final" .
  with S g dm base q q' st dme show ?thesis by auto
qed

text \<open>A base counter sorted among those without denominator holds its delta by then.\<close>

lemma denominator_delta:
  assumes part: "partition_metrics r (metrics newData) newData [] [] = Inr (newData1, nonDen, den)"
      and dist: "distinct (map fst (metrics newData))"
      and S: "state_at_turn ar r newData key = Inr S"
      and m: "GetMetric newData key = Some m" "counterLookup r m key = Inr (Some c)"
             "denominator c \<noteq> []"
      and md: "GetMetric newData d = Some md" "mName md \<noteq> ''timestamp''" "d \<noteq> ''timestamp''"
      and cd: "counterLookup r md d = Inr (Some cd)" "denominator cd = []"
              "counterType cd = ''delta'' \<or> counterType cd = ''rate''"
      and pd: "GetMetric (Matrix r) d = Some pd"
  shows "d \<noteq> key \<and> GetMetric S d = Some (cellwise (delta_cell ar) (relabel r d md) pd)"
proof -
  note sk = sorted_keys[OF part dist]
  let ?T = "timestamp_delta ar r newData1"
  let ?xs = "takeWhile (\<lambda>k. k \<noteq> key) (nonDen @ den)"
  have kn: "key \<notin> set nonDen" unfolding sk(5) using m by auto
  have dn: "d \<in> set nonDen" unfolding sk(5) using md cd by blast
  from kn dn have dk: "d \<noteq> key" by auto
  have xs: "?xs = nonDen @ takeWhile (\<lambda>k. k \<noteq> key) den"
    using kn by (intro takeWhile_append2) auto
  have dx: "d \<in> set ?xs" unfolding xs using dn by simp
  have "distinct ?xs" using sk(3) by (rule distinct_takeWhile)
  from S part have fpS: "first_pass ar r ?xs ?T = Inr S" by (simp add: state_at_turn_def)
  from first_pass_key[OF fpS dx \<open>distinct ?xs\<close>] obtain Sd Sdk where
    g0: "GetMetric Sd d = GetMetric ?T d"
    and Sdk: "process_metric ar r d Sd = Inr Sdk"
    and eq: "GetMetric S d = GetMetric Sdk d" by blast
  have g: "GetMetric Sd d = Some (relabel r d md)"
    using g0 md(1,3) sk(6)[of d] by (simp add: timestamp_delta_other)
  have cl: "counterLookup r (relabel r d md) d = Inr (Some cd)" using cd(1) by simp
  have ty: "counterType cd = ''rate'' \<or> counterType cd = ''delta''" using cd(3) by auto
  from process_rate_delta[OF g cl ty pd] obtain dm where
    dm: "Delta ar (relabel r d md) (Some pd) = Inr dm"
    and st: "process_metric ar r d Sd = Inr (put_metric d dm Sd)" by blast
  from st Sdk have "Sdk = put_metric d dm Sd" by simp
  with eq g have "GetMetric S d = Some dm" by (simp add: GetMetric_put_metric)
  with dm dk show ?thesis by (simp add: Delta_Some)
qed

subsection \<open>The threshold\<close>

lemma Atoi_empty: "Atoi [] = None"
  by (simp add: Atoi_def)

lemma loadParamInt_eq:
  "loadParamInt params param d =
     (case Atoi (GetChildContentS params param) of Some n \<Rightarrow> n | None \<Rightarrow> d)"
  by (simp add: loadParamInt_def Let_def Atoi_empty)

lemma InitMatrix_threshold:
  "latencyIoReqd (perfProp (InitMatrix cluster r0)) =
     (case Atoi (GetChildContentS (Params r0) ''latency_io_reqd'') of
        Some n \<Rightarrow> n | None \<Rightarrow> latencyIoReqd_default)"
  by (simp add: InitMatrix_def Let_def loadParamInt_eq)

lemma PollData_threshold:
  "latencyIoReqd (perfProp (fst (PollData ar fetch r))) = latencyIoReqd (perfProp r)"
  by (simp add: PollData_def Let_def split: option.splits sum.splits prod.splits)

text \<open>
  C3 as stated, for every metric whose counter has the type average or percent, has the
  delta divided by the delta of the denominator. The loop divides by the column of the
  base counter as it finds it, which is no delta for a base counter of the type raw (30
  over the fetched 160, not over 60), for a base counter that has a denominator itself
  (30 over the fetched 130 or over the quotient 1/2, as the map is visited, not over
  30), for a base column new in the sample and for one displayed as \<open>timestamp\<close>.
  Without the column of the base counter the delta is returned undivided; a column new
  in the sample and a metric displayed as \<open>timestamp\<close> are returned as fetched; the
  column under the key \<open>timestamp\<close> has its delta taken twice before the division.
  A template parameter \<open>latency_io_reqd\<close> that is no integer leaves the threshold at 10.
\<close>

theorem PollData_average_percent_counterexample:
  "returned_cells
     (poll [''busy'' \<mapsto> cnt ''busy'' ''percent'' ''elapsed'', ''elapsed'' \<mapsto> cnt ''elapsed'' ''raw'' []]
        (mini [ts_col [Some 100], col ''busy'' [Some 50], col ''elapsed'' [Some 100]])
        (mini [ts_col [Some 160], col ''busy'' [Some 80], col ''elapsed'' [Some 160]])) ''busy''
     = Some [Some ((80 - 50) / 160 * 100)] \<and>
   returned_cells
     (poll [''busy'' \<mapsto> cnt ''busy'' ''percent'' ''elapsed'', ''elapsed'' \<mapsto> cnt ''elapsed'' ''delta'' []]
        (mini [ts_col [Some 100], col ''busy'' [Some 50], col ''elapsed'' [Some 100]])
        (mini [ts_col [Some 160], col ''busy'' [Some 80], col ''elapsed'' [Some 160]])) ''busy''
     = Some [Some ((80 - 50) / (160 - 100) * 100)] \<and>
   (80 - 50) / 160 * 100 \<noteq> (80 - 50) / (160 - 100) * (100::real) \<and>
   returned_cells
     (poll [''lat'' \<mapsto> cnt ''lat'' ''average'' ''ops_avg'',
            ''ops_avg'' \<mapsto> cnt ''ops_avg'' ''average'' ''elapsed'',
            ''elapsed'' \<mapsto> cnt ''elapsed'' ''delta'' []]
        (mini [ts_col [Some 100], col ''lat'' [Some 50], col ''ops_avg'' [Some 100],
               col ''elapsed'' [Some 100]])
        (mini [ts_col [Some 160], col ''lat'' [Some 80], col ''ops_avg'' [Some 130],
               col ''elapsed'' [Some 160]])) ''lat''
     = Some [Some ((80 - 50) / 130)] \<and>
   returned_cells
     (poll [''lat'' \<mapsto> cnt ''lat'' ''average'' ''ops_avg'',
            ''ops_avg'' \<mapsto> cnt ''ops_avg'' ''average'' ''elapsed'',
            ''elapsed'' \<mapsto> cnt ''elapsed'' ''delta'' []]
        (mini [ts_col [Some 100], col ''ops_avg'' [Some 100], col ''lat'' [Some 50],
               col ''elapsed'' [Some 100]])
        (mini [ts_col [Some 160], col ''ops_avg'' [Some 130], col ''lat'' [Some 80],
               col ''elapsed'' [Some 160]])) ''lat''
     = Some [Some ((80 - 50) / ((130 - 100) / (160 - 100)))] \<and>
   (80 - 50) / 130 \<noteq> (80 - 50) / (130 - (100::real)) \<and>
   (80 - 50) / ((130 - 100) / (160 - 100)) \<noteq> (80 - 50) / (130 - (100::real)) \<and>
   returned_cells
     (poll [''busy'' \<mapsto> cnt ''busy'' ''average'' ''elapsed'', ''elapsed'' \<mapsto> cnt ''elapsed'' ''delta'' []]
        (mini [ts_col [Some 100], col ''busy'' [Some 50]])
        (mini [ts_col [Some 160], col ''busy'' [Some 80], col ''elapsed'' [Some 160]])) ''busy''
     = Some [Some ((80 - 50) / 160)] \<and>
   returned_cells
     (poll [''busy'' \<mapsto> cnt ''busy'' ''average'' ''elapsed'', ''elapsed'' \<mapsto> cnt ''elapsed'' ''delta'' []]
        (mini [ts_col [Some 100], col ''busy'' [Some 50], ncol ''elapsed'' ''timestamp'' [Some 100]])
        (mini [ts_col [Some 160], col ''busy'' [Some 80], ncol ''elapsed'' ''timestamp'' [Some 160]])) ''busy''
     = Some [Some ((80 - 50) / 160)] \<and>
   returned_cells
     (poll [''busy'' \<mapsto> cnt ''busy'' ''average'' ''elapsed'']
        (mini [ts_col [Some 100], col ''busy'' [Some 50]])
        (mini [ts_col [Some 160], col ''busy'' [Some 80]])) ''busy''
     = Some [Some (80 - 50)] \<and>
   returned_cells
     (poll [''busy'' \<mapsto> cnt ''busy'' ''average'' ''elapsed'', ''elapsed'' \<mapsto> cnt ''elapsed'' ''delta'' []]
        (mini [ts_col [Some 100], col ''elapsed'' [Some 100]])
        (mini [ts_col [Some 160], col ''busy'' [Some 80], col ''elapsed'' [Some 160]])) ''busy''
     = Some [Some 80] \<and>
   returned_cells
     (poll [''busy'' \<mapsto> cnt ''busy'' ''average'' ''elapsed'', ''elapsed'' \<mapsto> cnt ''elapsed'' ''delta'' []]
        (mini [ts_col [Some 100], ncol ''busy'' ''timestamp'' [Some 50], col ''elapsed'' [Some 100]])
        (mini [ts_col [Some 160], ncol ''busy'' ''timestamp'' [Some 80], col ''elapsed'' [Some 160]])) ''busy''
     = Some [Some 80] \<and>
   returned_cells
     (poll [''timestamp'' \<mapsto> cnt ''timestamp'' ''average'' ''elapsed'',
            ''elapsed'' \<mapsto> cnt ''elapsed'' ''delta'' []]
        (mini [ncol ''timestamp'' ''ts'' [Some 10], col ''elapsed'' [Some 100]])
        (mini [ncol ''timestamp'' ''ts'' [Some 160], col ''elapsed'' [Some 160]])) ''timestamp''
     = Some [Some ((160 - 10 - 10) / (160 - 100))] \<and>
   (160 - 10 - 10) / (160 - 100) \<noteq> (160 - 10) / (160 - (100::real)) \<and>
   latencyIoReqd (perfProp (InitMatrix ''cluster1''
     ((sample_collector True sample_prev)
        \<lparr>Params := Node ''volume'' [] [Node ''latency_io_reqd'' ''fast'' []]\<rparr>))) = 10"
  by (simp add: poll_defs InitMatrix_def loadParamInt_def GetChildContentS_def GetChildS_def
        Atoi_def is_digit_def latencyIoReqd_default_def)

text \<open>
  C3, amended. In a successful \<open>PollData\<close> that is not the first, take a metric
  neither stored under the key \<open>timestamp\<close> nor displayed as \<open>timestamp\<close> whose counter
  has the type average or percent, whose column is in the previous sample and whose
  base counter's column is in the matrix. Its delta is divided by the base counter's
  column as that stands when the loop reaches the metric: by \<open>DivideWithThreshold\<close>
  with the threshold \<open>latencyIoReqd\<close> if the display name ends in \<open>latency\<close>, by the
  plain \<open>Divide\<close> (which invalidates on a denominator 0) otherwise; a percent is then
  multiplied by 100. The base counter's column stands at its own delta when it is
  neither stored under the key \<open>timestamp\<close> nor displayed as \<open>timestamp\<close>, its counter
  has no denominator and the type delta or rate, and its column is in the previous
  sample. The threshold is the one \<open>InitMatrix\<close> loaded: the template parameter
  \<open>latency_io_reqd\<close> when it is given as an integer, and 10 otherwise; \<open>PollData\<close> does
  not change it.
\<close>

theorem PollData_average_percent:
  assumes "\<not> isCacheEmpty (perfProp r)"
      and "fetch (Reset (Clone False True True (Matrix r))) = Inr newData"
      and "PollData ar fetch r = (r', Inr res)"
      and "distinct (map fst (metrics newData))"
      and "GetMetric newData key = Some m"
      and "mName m \<noteq> ''timestamp''"
      and "key \<noteq> ''timestamp''"
      and "counterLookup r m key = Inr (Some c)"
      and "counterType c = ''average'' \<or> counterType c = ''percent''"
      and "GetMetric (Matrix r) key = Some p"
      and "GetMetric newData (denominator c) \<noteq> None"
  shows "(\<exists>out S dm base q.
            res = Some out \<and>
            state_at_turn ar r newData key = Inr S \<and>
            Delta ar (relabel r key m) (Some p) = Inr dm \<and>
            GetMetric (put_metric key dm S) (denominator c) = Some base \<and>
            (suffix ''latency'' (mName m) \<longrightarrow>
               DivideWithThreshold ar dm base (latencyIoReqd (perfProp r)) = Inr q) \<and>
            (\<not> suffix ''latency'' (mName m) \<longrightarrow> Divide ar dm base = Inr q) \<and>
            (counterType c = ''average'' \<longrightarrow> GetMetric out key = Some q) \<and>
            (counterType c = ''percent'' \<longrightarrow>
               (\<exists>q'. MultiplyByScalar ar q 100 = Inr q' \<and> GetMetric out key = Some q')) \<and>
            (\<forall>md cd pd.
               denominator c \<noteq> [] \<and> denominator c \<noteq> ''timestamp'' \<and>
               GetMetric newData (denominator c) = Some md \<and> mName md \<noteq> ''timestamp'' \<and>
               counterLookup r md (denominator c) = Inr (Some cd) \<and> denominator cd = [] \<and>
               (counterType cd = ''delta'' \<or> counterType cd = ''rate'') \<and>
               GetMetric (Matrix r) (denominator c) = Some pd \<longrightarrow>
               Delta ar (relabel r (denominator c) md) (Some pd) = Inr base)) \<and>
         latencyIoReqd (perfProp r') = latencyIoReqd (perfProp r) \<and>
         latencyIoReqd (perfProp (InitMatrix cluster r0)) =
           (case Atoi (GetChildContentS (Params r0) ''latency_io_reqd'') of
              Some n \<Rightarrow> n | None \<Rightarrow> latencyIoReqd_default) \<and>
         latencyIoReqd_default = 10"
proof -
  from PollData_later_sample[OF assms(1-3)] obtain newData1 nonDen den newData3 out where
    part: "partition_metrics r (metrics newData) newData [] [] = Inr (newData1, nonDen, den)"
    and fp: "first_pass ar r (nonDen @ den) (timestamp_delta ar r newData1) = Inr newData3"
    and sp: "second_pass ar r (nonDen @ den) newData3 = Inr out"
    and res: "res = Some out" by blast
  from average_percent_column[OF part assms(4) fp sp assms(5-11)] obtain S dm base q q' where
    S: "state_at_turn ar r newData key = Inr S"
    and dm: "Delta ar (relabel r key m) (Some p) = Inr dm"
    and base: "GetMetric (put_metric key dm S) (denominator c) = Some base"
    and q: "(if suffix ''latency'' (mName m)
            then DivideWithThreshold ar dm base (latencyIoReqd (perfProp r))
            else Divide ar dm base) = Inr q"
    and q': "MultiplyByScalar ar q 100 = Inr q'"
    and out: "GetMetric out key = Some (if counterType c = ''average'' then q else q')"
    by blast
  have den_delta: "Delta ar (relabel r (denominator c) md) (Some pd) = Inr base"
    if "denominator c \<noteq> []" "denominator c \<noteq> ''timestamp''"
       "GetMetric newData (denominator c) = Some md" "mName md \<noteq> ''timestamp''"
       "counterLookup r md (denominator c) = Inr (Some cd)" "denominator cd = []"
       "counterType cd = ''delta'' \<or> counterType cd = ''rate''"
       "GetMetric (Matrix r) (denominator c) = Some pd" for md cd pd
  proof -
    from denominator_delta[OF part assms(4) S assms(5,8) that(1,3,4,2,5,6,7,8)]
    have "denominator c \<noteq> key"
      and "GetMetric S (denominator c) = Some (cellwise (delta_cell ar) (relabel r (denominator c) md) pd)"
      by blast+
    with base show ?thesis by (simp add: GetMetric_put_metric Delta_Some)
  qed
  have th: "latencyIoReqd (perfProp r') = latencyIoReqd (perfProp r)"
    using PollData_threshold[of ar fetch r] assms(3) by simp
  have "\<exists>out S dm base q.
            res = Some out \<and>
            state_at_turn ar r newData key = Inr S \<and>
            Delta ar (relabel r key m) (Some p) = Inr dm \<and>
            GetMetric (put_metric key dm S) (denominator c) = Some base \<and>
            (suffix ''latency'' (mName m) \<longrightarrow>
               DivideWithThreshold ar dm base (latencyIoReqd (perfProp r)) = Inr q) \<and>
            (\<not> suffix ''latency'' (mName m) \<longrightarrow> Divide ar dm base = Inr q) \<and>
            (counterType c = ''average'' \<longrightarrow> GetMetric out key = Some q) \<and>
            (counterType c = ''percent'' \<longrightarrow>
               (\<exists>q'. MultiplyByScalar ar q 100 = Inr q' \<and> GetMetric out key = Some q')) \<and>
            (\<forall>md cd pd.
               denominator c \<noteq> [] \<and> denominator c \<noteq> ''timestamp'' \<and>
               GetMetric newData (denominator c) = Some md \<and> mName md \<noteq> ''timestamp'' \<and>
               counterLookup r md (denominator c) = Inr (Some cd) \<and> denominator cd = [] \<and>
               (counterType cd = ''delta'' \<or> counterType cd = ''rate'') \<and>
               GetMetric (Matrix r) (denominator c) = Some pd \<longrightarrow>
               Delta ar (relabel r (denominator c) md) (Some pd) = Inr base)"
  proof (intro exI conjI)
    show "res = Some out" by (rule res)
    show "state_at_turn ar r newData key = Inr S" by (rule S)
    show "Delta ar (relabel r key m) (Some p) = Inr dm" by (rule dm)
    show "GetMetric (put_metric key dm S) (denominator c) = Some base" by (rule base)
    show "suffix ''latency'' (mName m) \<longrightarrow>
            DivideWithThreshold ar dm base (latencyIoReqd (perfProp r)) = Inr q"
      using q by (simp split: if_splits)
    show "\<not> suffix ''latency'' (mName m) \<longrightarrow> Divide ar dm base = Inr q"
      using q by (simp split: if_splits)
    show "counterType c = ''average'' \<longrightarrow> GetMetric out key = Some q" using out by simp
    show "counterType c = ''percent'' \<longrightarrow>
            (\<exists>q'. MultiplyByScalar ar q 100 = Inr q' \<and> GetMetric out key = Some q')"
      using out q' by auto
    show "\<forall>md cd pd.
               denominator c \<noteq> [] \<and> denominator c \<noteq> ''timestamp'' \<and>
               GetMetric newData (denominator c) = Some md \<and> mName md \<noteq> ''timestamp'' \<and>
               counterLookup r md (denominator c) = Inr (Some cd) \<and> denominator cd = [] \<and>
               (counterType cd = ''delta'' \<or> counterType cd = ''rate'') \<and>
               GetMetric (Matrix r) (denominator c) = Some pd \<longrightarrow>
               Delta ar (relabel r (denominator c) md) (Some pd) = Inr base"
      using den_delta by blast
  qed
  then show ?thesis using th by (simp add: InitMatrix_threshold latencyIoReqd_default_def)
qed

text \<open>
  The column \<open>avg_latency\<close> of the sample run, whose base counter \<open>total_ops\<close> is a
  rate, and a template that sets the threshold to 25.
\<close>

theorem PollData_average_percent_witness:
  "\<not> isCacheEmpty (perfProp (sample_collector False sample_prev)) \<and>
   distinct (map fst (metrics sample_cur)) \<and>
   PollData real_ops (\<lambda>_. Inr sample_cur) (sample_collector False sample_prev)
     = (sample_collector False sample_cur, Inr (Some sample_out)) \<and>
   GetMetric sample_cur ''avg_latency'' = Some (snd (col ''avg_latency'' [Some 11000, Some 8600])) \<and>
   GetMetric (Matrix (sample_collector False sample_prev)) ''avg_latency''
     = Some (snd (col ''avg_latency'' [Some 5000, Some 8000])) \<and>
   counterLookup (sample_collector False sample_prev)
     (snd (col ''avg_latency'' [Some 11000, Some 8600])) ''avg_latency''
     = Inr (Some (cnt ''avg_latency'' ''average'' ''total_ops'')) \<and>
   GetMetric sample_cur ''total_ops'' = Some (snd (col ''total_ops'' [Some 1600, Some 2300])) \<and>
   GetMetric (Matrix (sample_collector False sample_prev)) ''total_ops''
     = Some (snd (col ''total_ops'' [Some 1000, Some 2000])) \<and>
   GetMetric sample_out ''avg_latency'' = Some (snd (lcol ''avg_latency'' [Some 10, Some 2])) \<and>
   latencyIoReqd (perfProp (sample_collector False sample_cur)) = 10 \<and>
   latencyIoReqd (perfProp (InitMatrix ''cluster1'' sample_template)) = 25"
proof -
  let ?r = "sample_collector False sample_prev"
  let ?m = "snd (col ''avg_latency'' [Some 11000, Some (8600::real)])"
  let ?p = "snd (col ''avg_latency'' [Some 5000, Some (8000::real)])"
  let ?c = "cnt ''avg_latency'' ''average'' ''total_ops''"
  let ?md = "snd (col ''total_ops'' [Some 1600, Some (2300::real)])"
  let ?pd = "snd (col ''total_ops'' [Some 1000, Some (2000::real)])"
  let ?cd = "cnt ''total_ops'' ''rate'' []"
  have c: "counterLookup ?r ?m ''avg_latency'' = Inr (Some ?c)"
    by (simp add: sample_lookup sample_info_def)
  have cd: "counterLookup ?r ?md ''total_ops'' = Inr (Some ?cd)"
    by (simp add: sample_lookup sample_info_def)
  have dc: "denominator ?c = ''total_ops''" by (simp add: cnt_def)
  have n: "mName ?m \<noteq> ''timestamp''" "''avg_latency'' \<noteq> ''timestamp''"
          "counterType ?c = ''average'' \<or> counterType ?c = ''percent''"
          "GetMetric sample_cur (denominator ?c) \<noteq> None"
    by (simp_all add: col_def cnt_def sample_get(3))
  from PollData_average_percent[OF sample_facts(1,2) sample_run sample_facts(3) sample_get(1) n(1,2) c
         n(3) sample_get(5) n(4), of "''cluster1''" sample_template]
  obtain out dm base q where
    out: "Some sample_out = Some out"
    and dm: "Delta real_ops (relabel ?r ''avg_latency'' ?m) (Some ?p) = Inr dm"
    and q: "suffix ''latency'' (mName ?m) \<longrightarrow>
              DivideWithThreshold real_ops dm base (latencyIoReqd (perfProp ?r)) = Inr q"
    and oq: "counterType ?c = ''average'' \<longrightarrow> GetMetric out ''avg_latency'' = Some q"
    and base: "\<forall>md cd pd.
               denominator ?c \<noteq> [] \<and> denominator ?c \<noteq> ''timestamp'' \<and>
               GetMetric sample_cur (denominator ?c) = Some md \<and> mName md \<noteq> ''timestamp'' \<and>
               counterLookup ?r md (denominator ?c) = Inr (Some cd) \<and> denominator cd = [] \<and>
               (counterType cd = ''delta'' \<or> counterType cd = ''rate'') \<and>
               GetMetric (Matrix ?r) (denominator ?c) = Some pd \<longrightarrow>
               Delta real_ops (relabel ?r (denominator ?c) md) (Some pd) = Inr base"
    and thr: "latencyIoReqd (perfProp (sample_collector False sample_cur)) = latencyIoReqd (perfProp ?r)"
    and ini: "latencyIoReqd (perfProp (InitMatrix ''cluster1'' sample_template)) =
           (case Atoi (GetChildContentS (Params sample_template) ''latency_io_reqd'') of
              Some n \<Rightarrow> n | None \<Rightarrow> latencyIoReqd_default)"
    by blast
  have "denominator ?c \<noteq> [] \<and> denominator ?c \<noteq> ''timestamp'' \<and>
        GetMetric sample_cur (denominator ?c) = Some ?md \<and> mName ?md \<noteq> ''timestamp'' \<and>
        counterLookup ?r ?md (denominator ?c) = Inr (Some ?cd) \<and> denominator ?cd = [] \<and>
        (counterType ?cd = ''delta'' \<or> counterType ?cd = ''rate'') \<and>
        GetMetric (Matrix ?r) (denominator ?c) = Some ?pd"
    using cd sample_get(3,7) by (simp add: dc) (simp add: cnt_def col_def)
  with base have b: "Delta real_ops (relabel ?r (denominator ?c) ?md) (Some ?pd) = Inr base"
    by blast
  have rl: "relabel ?r ''avg_latency'' ?m = snd (lcol ''avg_latency'' [Some 11000, Some 8600])"
    by (rule sample_relabel) (simp add: sample_info_def)
  have rld: "relabel ?r ''total_ops'' ?md = snd (lcol ''total_ops'' [Some 1600, Some 2300])"
    by (rule sample_relabel) (simp add: sample_info_def)
  from b rld have bv: "base = snd (lcol ''total_ops'' [Some 600, Some 300])"
    by (simp add: dc Delta_def cellwise_def pad_def delta_cell_def real_ops_def col_def lcol_def)
  from dm rl have dmv: "dm = snd (lcol ''avg_latency'' [Some 6000, Some 600])"
    by (simp add: Delta_def cellwise_def pad_def delta_cell_def real_ops_def col_def lcol_def)
  have "suffix ''latency'' (mName ?m)" by (simp add: col_def suffix_def)
  with q have "DivideWithThreshold real_ops dm base (latencyIoReqd (perfProp ?r)) = Inr q" by simp
  with bv dmv have qv: "q = snd (lcol ''avg_latency'' [Some 10, Some 2])"
    by (simp add: DivideWithThreshold_def cellwise_def pad_def threshold_cell_def real_ops_def
          lcol_def sample_collector_def)
  from oq out qv have r1: "GetMetric sample_out ''avg_latency'' = Some (snd (lcol ''avg_latency'' [Some 10, Some 2]))"
    by (simp add: cnt_def)
  from thr have r2: "latencyIoReqd (perfProp (sample_collector False sample_cur)) = 10"
    by (simp add: sample_collector_def)
  from ini have r3: "latencyIoReqd (perfProp (InitMatrix ''cluster1'' sample_template)) = 25"
    by (simp add: sample_template_def sample_collector_def GetChildContentS_def GetChildS_def Atoi_def Let_def latencyIoReqd_default_def
          is_digit_def digits_value_def)
  show ?thesis using sample_facts(1,3) sample_run sample_get(1,5,3,7) c r1 r2 r3 by simp
qed

subsection \<open>Percent against average\<close>






lemma with_counterType_fields [simp]:
  "Matrix (with_counterType r n t) = Matrix r"
  "Query (with_counterType r n t) = Query r"
  "isCacheEmpty (perfProp (with_counterType r n t)) = isCacheEmpty (perfProp r)"
  "latencyIoReqd (perfProp (with_counterType r n t)) = latencyIoReqd (perfProp r)"
  by (simp_all add: with_counterType_def)

lemma divide_by_base_with_counterType [simp]:
  "divide_by_base ar (with_counterType r n t) x b = divide_by_base ar r x b"
  by (simp add: divide_by_base_def)


lemma relabel_with_counterType [simp]:
  "relabel (with_counterType r n t) k x = relabel r k x"
  by (auto simp: relabel_def counterLookup_def with_counterType_def Let_def
           split: sum.splits option.splits if_splits)





section \<open>PollCounter: the timestamp column\<close>

lemmas workload_defs = PollCounter_def processWorkLoadCounter_def create_timestamp_def
  ensure_ops_def GetOverride_def GetChildS_def GetChildContentS_def NewMetricFloat64_def
  GetMetric_def put_metric_def modify_metric_def SetLabel_def isWorkloadDetailObject_def
  qosDetailQuery_def qosDetailVolumeQuery_def sample_workload_def workload_schemas_def
  workload_out_def wcol_def tmpl_def Let_def

text \<open>
  C10. \<open>PollCounter\<close> creates the column \<open>timestamp\<close> when it is absent and sets it raw
  and unexported, so that it is never exported. For a workload-detail object whose
  template asks for a counter named \<open>timestamp\<close> it does not stay so: the loop of
  \<open>processWorkLoadCounter\<close> over \<open>r.Prop.Metrics\<close>, which \<open>PollCounter\<close> calls next,
  sets the export flag of every requested counter's column to that of the template.
  The call succeeds and returns a matrix whose column \<open>timestamp\<close> is exportable.
\<close>

theorem PollCounter_template_timestamp_exported:
  "fst (snd (PollCounter (Inr workload_schemas) (sample_workload [tmpl ''timestamp'' True])))
     = Some (workload_out True) \<and>
   snd (snd (PollCounter (Inr workload_schemas) (sample_workload [tmpl ''timestamp'' True]))) = None \<and>
   GetMetric (workload_out True) ''timestamp''
     = Some (snd (wcol ''timestamp'' ''timestamp'' ''raw'' True [])) \<and>
   mExportable (snd (wcol ''timestamp'' ''timestamp'' ''raw'' True [])) \<and>
   exported_metrics (workload_out True) = [''timestamp'', ''ops'', ''CPU_dblade'']"
  by (simp add: workload_defs exported_metrics_def)

subsection \<open>What the steps of PollCounter keep of the column\<close>

lemma keys_modify_metric: "map fst (metrics (modify_metric key f M)) = map fst (metrics M)"
  by (simp add: modify_metric_def split_def comp_def)

lemma NewMetricFloat64_Inr:
  assumes "NewMetricFloat64 M key = Inr (m, M')"
  shows "GetMetric M key = None"
    and "metrics M' = metrics M @ [(key, m)]"
    and "GetMetric M' k = (if k = key then Some m else GetMetric M k)"
proof -
  from assms show n: "GetMetric M key = None"
    by (simp add: NewMetricFloat64_def Let_def split: option.splits)
  from assms show ms: "metrics M' = metrics M @ [(key, m)]"
    by (auto simp: NewMetricFloat64_def Let_def split: option.splits)
  show "GetMetric M' k = (if k = key then Some m else GetMetric M k)"
    using n by (auto simp: GetMetric_def ms map_add_def split: option.splits)
qed

lemma NewMetricFloat64_kept:
  assumes "NewMetricFloat64 M key = Inr (m, M')" and "timestamp_kept vs M"
  shows "timestamp_kept vs M'" and "key \<noteq> ''timestamp''"
proof -
  note n = NewMetricFloat64_Inr[OF assms(1)]
  from assms(2) n(1) show k: "key \<noteq> ''timestamp''"
    by (auto simp: timestamp_kept_def split: option.splits)
  from n(1) have "key \<notin> fst ` set (metrics M)"
    by (simp add: GetMetric_def map_of_eq_None_iff)
  with assms(2) k show "timestamp_kept vs M'"
    by (simp add: timestamp_kept_def n(2,3))
qed

lemma modify_metric_kept:
  assumes "timestamp_kept vs M"
      and "key = ''timestamp'' \<Longrightarrow>
           \<forall>m. mProperty (f m) = mProperty m \<and> cells (f m) = cells m \<and> \<not> mExportable (f m)"
  shows "timestamp_kept vs (modify_metric key f M)"
  using assms
  by (auto simp: timestamp_kept_def keys_modify_metric GetMetric_modify_metric split: option.splits)

lemma create_timestamp_kept:
  assumes "create_timestamp M = Inr M'"
      and "distinct (map fst (metrics M))"
      and "\<forall>m. GetMetric M ''timestamp'' = Some m \<longrightarrow> mProperty m = ''raw'' \<and> \<not> mExportable m"
  shows "timestamp_kept (case GetMetric M ''timestamp'' of
                           None \<Rightarrow> replicate (length (instances M)) None
                         | Some m \<Rightarrow> cells m) M'"
proof (cases "GetMetric M ''timestamp''")
  case (Some m)
  with assms show ?thesis by (simp add: create_timestamp_def timestamp_kept_def)
next
  case None
  with assms(1) obtain m M1 where
    new: "NewMetricFloat64 M ''timestamp'' = Inr (m, M1)"
    and M': "M' = put_metric ''timestamp'' (m\<lparr>mProperty := ''raw'', mExportable := False\<rparr>) M1"
    by (auto simp: create_timestamp_def split: sum.splits)
  note n = NewMetricFloat64_Inr[OF new]
  from new None have c: "cells m = replicate (length (instances M)) None"
    by (auto simp: NewMetricFloat64_def Let_def)
  from None have "''timestamp'' \<notin> fst ` set (metrics M)"
    by (simp add: GetMetric_def map_of_eq_None_iff)
  with assms(2) have "distinct (map fst (metrics M1))" by (simp add: n(2))
  then show ?thesis using None c
    by (simp add: M' timestamp_kept_def keys_put_metric GetMetric_put_metric n(3))
qed

lemma template_metrics_kept:
  "template_metrics ms M = Inr M' \<Longrightarrow> timestamp_kept vs M \<Longrightarrow> not_exported ms
   \<Longrightarrow> timestamp_kept vs M'"
proof (induction ms arbitrary: M)
  case Nil
  then show ?case by simp
next
  case (Cons e ms)
  obtain nm metric where e: "e = (nm, metric)" by (cases e)
  let ?f = "\<lambda>metr. metr\<lparr>mName := Label metric, mExportable := Exportable metric\<rparr>"
  from Cons.prems(3) have rest: "not_exported ms"
    and ex: "nm = ''timestamp'' \<Longrightarrow> \<not> Exportable metric"
    by (simp_all add: not_exported_def e)
  show ?case
  proof (cases "GetMetric M nm")
    case (Some x)
    with Cons.prems(1) have t: "template_metrics ms (modify_metric nm ?f M) = Inr M'"
      by (simp add: e)
    have "timestamp_kept vs (modify_metric nm ?f M)"
      by (rule modify_metric_kept[OF Cons.prems(2)]) (simp add: ex)
    from Cons.IH[OF t this rest] show ?thesis .
  next
    case None
    with Cons.prems(1) obtain m0 M1 where
      new: "NewMetricFloat64 M nm = Inr (m0, M1)"
      and t: "template_metrics ms (modify_metric nm ?f M1) = Inr M'"
      by (auto simp: e split: sum.splits)
    have "timestamp_kept vs (modify_metric nm ?f M1)"
      by (rule modify_metric_kept[OF NewMetricFloat64_kept(1)[OF new Cons.prems(2)]])
         (simp add: ex)
    from Cons.IH[OF t this rest] show ?thesis .
  qed
qed

lemma ensure_ops_kept:
  assumes "ensure_ops vn (M, info) = Inr (M2, info2)" and "timestamp_kept vs M"
  shows "timestamp_kept vs M2"
proof (cases "GetMetric M ''ops''")
  case (Some x)
  with assms show ?thesis by (simp add: ensure_ops_def)
next
  case None
  with assms(1) obtain m0 where "NewMetricFloat64 M ''ops'' = Inr (m0, M2)"
    by (auto simp: ensure_ops_def split: sum.splits option.splits)
  from NewMetricFloat64_kept(1)[OF this assms(2)] show ?thesis .
qed

lemma resource_metrics_kept:
  "resource_metrics sn xs (M, info) = Inr (M4, info4) \<Longrightarrow> timestamp_kept vs M
   \<Longrightarrow> timestamp_kept vs M4"
proof (induction xs arbitrary: M info)
  case Nil
  then show ?case by simp
next
  case (Cons x xs)
  show ?case
  proof (cases "GetMetric M (nodeName x)")
    case (Some y)
    with Cons.prems(1) have "resource_metrics sn xs (M, info) = Inr (M4, info4)" by simp
    from Cons.IH[OF this Cons.prems(2)] show ?thesis .
  next
    case None
    let ?f = "\<lambda>m. SetLabel ''resource'' (nodeContent x) (m\<lparr>mName := ''resource_latency''\<rparr>)"
    from None Cons.prems(1) obtain m0 M1 info1 where
      new: "NewMetricFloat64 M (nodeName x) = Inr (m0, M1)"
      and t: "resource_metrics sn xs (modify_metric (nodeName x) ?f M1, info1) = Inr (M4, info4)"
      by (auto split: sum.splits option.splits)
    note k = NewMetricFloat64_kept[OF new Cons.prems(2)]
    have "timestamp_kept vs (modify_metric (nodeName x) ?f M1)"
      by (rule modify_metric_kept[OF k(1)]) (simp add: k(2))
    from Cons.IH[OF t this] show ?thesis .
  qed
qed

lemma processWorkLoadCounter_kept:
  assumes "processWorkLoadCounter r = (r3, None)"
      and "timestamp_kept vs (Matrix r)"
      and "isWorkloadDetailObject (Query r) \<longrightarrow> not_exported (Metrics r)"
  shows "timestamp_kept vs (Matrix r3)" and "Query r3 = Query r" and "Metrics r3 = Metrics r"
proof -
  have "timestamp_kept vs (Matrix r3) \<and> Query r3 = Query r \<and> Metrics r3 = Metrics r"
  proof (cases "isWorkloadDetailObject (Query r)")
    case False
    with assms show ?thesis by (simp add: processWorkLoadCounter_def)
  next
    case True
    with assms(1) obtain M1 service wait visits M2 info2 resourceMap M4 info4 where
      t: "template_metrics (Metrics r) (Matrix r) = Inr M1"
      and s: "GetMetric M1 ''service_time'' = Some service"
      and v: "GetMetric M1 ''visits'' = Some visits"
      and o: "ensure_ops (mName visits) (M1, counterInfo (perfProp r)) = Inr (M2, info2)"
      and rm: "resource_metrics (mName service) (nodeChildren resourceMap)
                 (modify_metric ''visits'' (\<lambda>m. m\<lparr>mExportable := False\<rparr>)
                    (modify_metric ''wait_time'' (\<lambda>m. m\<lparr>mExportable := False\<rparr>)
                       (modify_metric ''service_time'' (\<lambda>m. m\<lparr>mExportable := False\<rparr>) M2)), info2)
               = Inr (M4, info4)"
      and r3: "Matrix r3 = M4 \<and> Query r3 = Query r \<and> Metrics r3 = Metrics r"
      by (auto simp: processWorkLoadCounter_def Let_def
               split: sum.splits option.splits prod.splits)
    from True assms(3) have ne: "not_exported (Metrics r)" by simp
    have k1: "timestamp_kept vs M1" by (rule template_metrics_kept[OF t assms(2) ne])
    have k2: "timestamp_kept vs M2" by (rule ensure_ops_kept[OF o k1])
    have "timestamp_kept vs (modify_metric ''visits'' (\<lambda>m. m\<lparr>mExportable := False\<rparr>)
                    (modify_metric ''wait_time'' (\<lambda>m. m\<lparr>mExportable := False\<rparr>)
                       (modify_metric ''service_time'' (\<lambda>m. m\<lparr>mExportable := False\<rparr>) M2)))"
      by (intro modify_metric_kept k2) simp_all
    from resource_metrics_kept[OF rm this] show ?thesis by (simp add: r3)
  qed
  then show "timestamp_kept vs (Matrix r3)" and "Query r3 = Query r" and "Metrics r3 = Metrics r"
    by simp_all
qed

lemma PollCounter_kept:
  assumes "PollCounter (Inr cs) r = (r', res, None)"
      and "distinct (map fst (metrics (Matrix r)))"
      and "\<forall>m. GetMetric (Matrix r) ''timestamp'' = Some m \<longrightarrow> mProperty m = ''raw'' \<and> \<not> mExportable m"
      and "isWorkloadDetailObject (Query r) \<longrightarrow> not_exported (register_denominators cs (Metrics r))"
  shows "res = Some (Matrix r')"
    and "timestamp_kept (case GetMetric (Matrix r) ''timestamp'' of
                           None \<Rightarrow> replicate (length (instances (Matrix r))) None
                         | Some m \<Rightarrow> cells m) (Matrix r')"
    and "Query r' = Query r"
    and "Metrics r' = register_denominators cs (Metrics r)"
proof -
  let ?r1 = "r\<lparr>Metrics := register_denominators cs (Metrics r)\<rparr>"
  let ?r2 = "?r1\<lparr>perfProp := (perfProp ?r1)\<lparr>counterInfo :=
                                       fill_counterInfo ?r1 cs (counterInfo (perfProp ?r1))\<rparr>\<rparr>"
  from assms(1) obtain M where
    c: "create_timestamp (Matrix r) = Inr M"
    and p: "processWorkLoadCounter (?r2\<lparr>Matrix := M\<rparr>) = (r', None)"
    and res: "res = Some (Matrix r')"
    by (auto simp: PollCounter_def Let_def split: sum.splits prod.splits)
  note k = create_timestamp_kept[OF c assms(2,3)]
  have "timestamp_kept (case GetMetric (Matrix r) ''timestamp'' of
                           None \<Rightarrow> replicate (length (instances (Matrix r))) None
                         | Some m \<Rightarrow> cells m) (Matrix (?r2\<lparr>Matrix := M\<rparr>))"
    using k by simp
  note w = processWorkLoadCounter_kept[OF p this]
  show "res = Some (Matrix r')" by (rule res)
  show "timestamp_kept (case GetMetric (Matrix r) ''timestamp'' of
                           None \<Rightarrow> replicate (length (instances (Matrix r))) None
                         | Some m \<Rightarrow> cells m) (Matrix r')"
    using w(1) assms(4) by simp
  show "Query r' = Query r" using w(2) assms(4) by simp
  show "Metrics r' = register_denominators cs (Metrics r)" using w(3) assms(4) by simp
qed

lemma one_entry:
  "distinct (map fst xs) \<Longrightarrow> map_of xs k = Some m \<Longrightarrow> filter (\<lambda>(k', x). k' = k) xs = [(k, m)]"
proof (induction xs)
  case Nil
  then show ?case by simp
next
  case (Cons e xs)
  obtain k0 x0 where e: "e = (k0, x0)" by (cases e)
  show ?case
  proof (cases "k0 = k")
    case True
    with Cons.prems e have "k \<notin> fst ` set xs" and "x0 = m" by auto
    then have "filter (\<lambda>(k', x). k' = k) xs = []" by (force simp: filter_empty_conv)
    with True e \<open>x0 = m\<close> show ?thesis by simp
  next
    case False
    with Cons e show ?thesis by simp
  qed
qed

lemma timestamp_kept_entries:
  assumes "timestamp_kept vs M"
  shows "\<exists>m. timestamp_entries M = [(''timestamp'', m)] \<and> GetMetric M ''timestamp'' = Some m \<and>
             mProperty m = ''raw'' \<and> \<not> mExportable m \<and> cells m = vs"
    and "''timestamp'' \<notin> set (exported_metrics M)"
proof -
  from assms obtain m where d: "distinct (map fst (metrics M))"
    and g: "map_of (metrics M) ''timestamp'' = Some m"
    and m: "mProperty m = ''raw''" "\<not> mExportable m" "cells m = vs"
    by (auto simp: timestamp_kept_def GetMetric_def split: option.splits)
  have e: "timestamp_entries M = [(''timestamp'', m)]"
    unfolding timestamp_entries_def by (rule one_entry[OF d g])
  then show "\<exists>m. timestamp_entries M = [(''timestamp'', m)] \<and> GetMetric M ''timestamp'' = Some m \<and>
             mProperty m = ''raw'' \<and> \<not> mExportable m \<and> cells m = vs"
    using g m by (simp add: GetMetric_def)
  have "x = m" if "(''timestamp'', x) \<in> set (metrics M)" for x
    using that d g by simp
  with m(2) show "''timestamp'' \<notin> set (exported_metrics M)"
    by (auto simp: exported_metrics_def)
qed

text \<open>
  Without such a counter in the template the column stays as it is created. Take a
  collector whose matrix has no key twice and whose column \<open>timestamp\<close>, if it is
  there, is raw and unexported, and, for a workload-detail object, a template that asks
  for no exported counter \<open>timestamp\<close> (among the requested counters as the call
  extends them by the denominators). A successful \<open>PollCounter\<close> returns \<open>r.Matrix\<close>
  with exactly one column under \<open>timestamp\<close>, raw and unexported. The column is created
  only when it is absent: one that was there keeps its cells, a new one has no valid
  cell, and for any other object the matrix that already has the column is left as it
  was. A second successful call from the collector the first one left keeps the one
  column and its cells.
\<close>

lemma PollCounter_timestamp:
  assumes "distinct (map fst (metrics (Matrix r)))"
      and "\<forall>m. GetMetric (Matrix r) ''timestamp'' = Some m \<longrightarrow> mProperty m = ''raw'' \<and> \<not> mExportable m"
      and "isWorkloadDetailObject (Query r) \<longrightarrow> not_exported (register_denominators cs (Metrics r))"
      and "PollCounter (Inr cs) r = (r', res, None)"
  shows "\<exists>m. res = Some (Matrix r') \<and>
             timestamp_entries (Matrix r') = [(''timestamp'', m)] \<and>
             mProperty m = ''raw'' \<and> \<not> mExportable m \<and>
             ''timestamp'' \<notin> set (exported_metrics (Matrix r')) \<and>
             cells m = (case GetMetric (Matrix r) ''timestamp'' of
                          None \<Rightarrow> replicate (length (instances (Matrix r))) None
                        | Some m0 \<Rightarrow> cells m0) \<and>
             (\<not> isWorkloadDetailObject (Query r) \<and> GetMetric (Matrix r) ''timestamp'' \<noteq> None
                \<longrightarrow> Matrix r' = Matrix r) \<and>
             (\<forall>cs2 r2 res2.
                (isWorkloadDetailObject (Query r') \<longrightarrow>
                   not_exported (register_denominators cs2 (Metrics r'))) \<and>
                PollCounter (Inr cs2) r' = (r2, res2, None) \<longrightarrow>
                (\<exists>m2. res2 = Some (Matrix r2) \<and>
                      timestamp_entries (Matrix r2) = [(''timestamp'', m2)] \<and>
                      mProperty m2 = ''raw'' \<and> \<not> mExportable m2 \<and> cells m2 = cells m \<and>
                      ''timestamp'' \<notin> set (exported_metrics (Matrix r2))))"
proof -
  let ?vs = "case GetMetric (Matrix r) ''timestamp'' of
               None \<Rightarrow> replicate (length (instances (Matrix r))) None
             | Some m0 \<Rightarrow> cells m0"
  note k = PollCounter_kept[OF assms(4,1,2,3)]
  from timestamp_kept_entries(1)[OF k(2)] obtain m where
    e: "timestamp_entries (Matrix r') = [(''timestamp'', m)]"
    and g: "GetMetric (Matrix r') ''timestamp'' = Some m"
    and m: "mProperty m = ''raw''" "\<not> mExportable m" "cells m = ?vs"
    by blast
  have same: "Matrix r' = Matrix r"
    if "\<not> isWorkloadDetailObject (Query r)" "GetMetric (Matrix r) ''timestamp'' \<noteq> None"
    using assms(4) that
    by (auto simp: PollCounter_def processWorkLoadCounter_def create_timestamp_def Let_def
             split: sum.splits option.splits prod.splits)
  have again: "\<exists>m2. res2 = Some (Matrix r2) \<and>
                      timestamp_entries (Matrix r2) = [(''timestamp'', m2)] \<and>
                      mProperty m2 = ''raw'' \<and> \<not> mExportable m2 \<and> cells m2 = cells m \<and>
                      ''timestamp'' \<notin> set (exported_metrics (Matrix r2))"
    if t: "isWorkloadDetailObject (Query r') \<longrightarrow> not_exported (register_denominators cs2 (Metrics r'))"
      and p: "PollCounter (Inr cs2) r' = (r2, res2, None)" for cs2 r2 res2
  proof -
    from k(2) have d: "distinct (map fst (metrics (Matrix r')))" by (simp add: timestamp_kept_def)
    from g m have i: "\<forall>x. GetMetric (Matrix r') ''timestamp'' = Some x \<longrightarrow>
                        mProperty x = ''raw'' \<and> \<not> mExportable x" by simp
    note k2 = PollCounter_kept[OF p d i t]
    from timestamp_kept_entries[OF k2(2)] k2(1) g show ?thesis by auto
  qed
  from e m timestamp_kept_entries(2)[OF k(2)] k(1) same again show ?thesis by blast
qed

text \<open>Two calls in a row on a workload-detail collector whose matrix starts empty.\<close>

lemma workload_run:
  "PollCounter (Inr workload_schemas) (sample_workload [])
     = (sample_workload_after, Some (workload_out False), None)"
  by (simp add: workload_defs sample_workload_after_def)

lemma workload_rerun:
  "PollCounter (Inr workload_schemas) sample_workload_after
     = (sample_workload_after, Some (workload_out False), None)"
  by (simp add: workload_defs sample_workload_after_def)

lemma PollCounter_timestamp_sample:
  "distinct (map fst (metrics (Matrix (sample_workload [])))) \<and>
   GetMetric (Matrix (sample_workload [])) ''timestamp'' = None \<and>
   isWorkloadDetailObject (Query (sample_workload [])) \<and>
   not_exported (register_denominators workload_schemas (Metrics (sample_workload []))) \<and>
   PollCounter (Inr workload_schemas) (sample_workload [])
     = (sample_workload_after, Some (workload_out False), None) \<and>
   PollCounter (Inr workload_schemas) sample_workload_after
     = (sample_workload_after, Some (workload_out False), None) \<and>
   timestamp_entries (workload_out False) = [wcol ''timestamp'' ''timestamp'' ''raw'' False []] \<and>
   ''timestamp'' \<notin> set (exported_metrics (workload_out False))"
proof -
  let ?r = "sample_workload []"
  have h: "distinct (map fst (metrics (Matrix ?r)))"
          "GetMetric (Matrix ?r) ''timestamp'' = None"
          "isWorkloadDetailObject (Query ?r)"
          "not_exported (register_denominators workload_schemas (Metrics ?r))"
    by (simp_all add: workload_defs not_exported_def)
  from h(2) have h2: "\<forall>m. GetMetric (Matrix ?r) ''timestamp'' = Some m \<longrightarrow>
                          mProperty m = ''raw'' \<and> \<not> mExportable m" by simp
  from h(4) have h3: "isWorkloadDetailObject (Query ?r) \<longrightarrow>
                        not_exported (register_denominators workload_schemas (Metrics ?r))" by simp
  from PollCounter_timestamp[OF h(1) h2 h3 workload_run] obtain m where
    e: "timestamp_entries (Matrix sample_workload_after) = [(''timestamp'', m)]"
    and m: "mProperty m = ''raw''" "\<not> mExportable m"
    and x: "''timestamp'' \<notin> set (exported_metrics (Matrix sample_workload_after))"
    by blast
  have M: "Matrix sample_workload_after = workload_out False"
    by (simp add: sample_workload_after_def)
  have "timestamp_entries (workload_out False) = [wcol ''timestamp'' ''timestamp'' ''raw'' False []]"
    using e m unfolding M by (simp add: timestamp_entries_def workload_out_def wcol_def)
  with h workload_run workload_rerun x show ?thesis unfolding M by simp
qed

section \<open>upgradeCollector\<close>

lemmas remote_defs = ontap911_def ontap917_def asaR2_def keyPerf_def keyPerfWithZapi_def
  empty_Remote_def

text \<open>
  C1, as stated, has ZapiPerf become RestPerf whenever the cluster has no ZAPIs. On the
  record of the test rows named KeyPerf (no ZAPIs, disaggregated) ZapiPerf becomes
  KeyPerf, as the test wants.
\<close>

theorem upgradeCollector_no_zapi_counterexample:
  "\<not> ZAPIsExist keyPerf \<and> upgraded ''ZapiPerf'' keyPerf = ''KeyPerf'' \<and> upgraded ''ZapiPerf'' keyPerf \<noteq> ''RestPerf''"
  by (simp add: upgraded_def upgradeCollector_def remote_defs)

lemma upgraded_closed_form:
  "upgraded n r =
     (if n = ''ZapiPerf'' then (if IsDisaggregated r then ''KeyPerf'' else if ZAPIsExist r then ''ZapiPerf'' else ''RestPerf'')
      else if n = ''RestPerf'' then (if IsDisaggregated r then ''KeyPerf'' else ''RestPerf'')
      else if n = ''Zapi'' then (if ZAPIsExist r \<and> \<not> (IsDisaggregated r \<and> IsSanOptimized r) then ''Zapi'' else ''Rest'')
      else n)"
  by (simp add: upgraded_def upgradeCollector_def Let_def)

lemma S1_rows:
  "upgraded ''Zapi'' ontap911 = ''Zapi'' \<and> upgraded ''ZapiPerf'' ontap911 = ''ZapiPerf'' \<and>
   upgraded ''Rest'' ontap911 = ''Rest'' \<and> upgraded ''KeyPerf'' ontap911 = ''KeyPerf'' \<and>
   upgraded ''Zapi'' ontap917 = ''Rest'' \<and> upgraded ''ZapiPerf'' ontap917 = ''RestPerf'' \<and>
   upgraded ''KeyPerf'' ontap917 = ''KeyPerf'' \<and>
   upgraded ''Zapi'' keyPerf = ''Rest'' \<and> upgraded ''Rest'' keyPerf = ''Rest'' \<and>
   upgraded ''ZapiPerf'' keyPerf = ''KeyPerf'' \<and> upgraded ''RestPerf'' keyPerf = ''KeyPerf'' \<and>
   upgraded ''Zapi'' keyPerfWithZapi = ''Zapi'' \<and> upgraded ''ZapiPerf'' keyPerfWithZapi = ''KeyPerf'' \<and>
   upgraded ''RestPerf'' keyPerfWithZapi = ''KeyPerf'' \<and>
   upgraded ''Zapi'' asaR2 = ''Rest'' \<and> upgraded ''RestPerf'' asaR2 = ''KeyPerf''"
  by (simp add: upgraded_closed_form remote_defs)

text \<open>
  C1, amended. \<open>upgradeCollector\<close> changes the class alone, as a function of the class
  asked for and the capability record: without ZAPIs Zapi becomes Rest, and ZapiPerf
  becomes RestPerf unless the cluster is disaggregated; on a disaggregated cluster
  RestPerf and ZapiPerf become KeyPerf, and Zapi becomes Rest if the cluster is also
  SAN-optimized; KeyPerf stays KeyPerf on every record; every class other than Zapi,
  ZapiPerf and RestPerf is returned unchanged, and so are these three where no rule
  applies. The sixteen rows of scenario S1 (\<open>TestCollectorUpgrade\<close>) follow.
\<close>

theorem upgradeCollector_rules:
  "(\<not> ZAPIsExist r \<longrightarrow> upgraded ''Zapi'' r = ''Rest'') \<and>
   (\<not> ZAPIsExist r \<and> \<not> IsDisaggregated r \<longrightarrow> upgraded ''ZapiPerf'' r = ''RestPerf'') \<and>
   (IsDisaggregated r \<longrightarrow> upgraded ''RestPerf'' r = ''KeyPerf'' \<and> upgraded ''ZapiPerf'' r = ''KeyPerf'') \<and>
   (IsDisaggregated r \<and> IsSanOptimized r \<longrightarrow> upgraded ''Zapi'' r = ''Rest'') \<and>
   upgraded ''KeyPerf'' r = ''KeyPerf'' \<and>
   (n \<notin> {''Zapi'', ''ZapiPerf'', ''RestPerf''} \<longrightarrow> upgraded n r = n) \<and>
   (ZAPIsExist r \<and> \<not> (IsDisaggregated r \<and> IsSanOptimized r) \<longrightarrow> upgraded ''Zapi'' r = ''Zapi'') \<and>
   (ZAPIsExist r \<and> \<not> IsDisaggregated r \<longrightarrow> upgraded ''ZapiPerf'' r = ''ZapiPerf'') \<and>
   (\<not> IsDisaggregated r \<longrightarrow> upgraded ''RestPerf'' r = ''RestPerf'') \<and>
   upgradeCollector c r = c\<lparr>Name := upgraded (Name c) r\<rparr> \<and>
   upgraded ''Zapi'' ontap911 = ''Zapi'' \<and> upgraded ''ZapiPerf'' ontap911 = ''ZapiPerf'' \<and>
   upgraded ''Rest'' ontap911 = ''Rest'' \<and> upgraded ''KeyPerf'' ontap911 = ''KeyPerf'' \<and>
   upgraded ''Zapi'' ontap917 = ''Rest'' \<and> upgraded ''ZapiPerf'' ontap917 = ''RestPerf'' \<and>
   upgraded ''KeyPerf'' ontap917 = ''KeyPerf'' \<and>
   upgraded ''Zapi'' keyPerf = ''Rest'' \<and> upgraded ''Rest'' keyPerf = ''Rest'' \<and>
   upgraded ''ZapiPerf'' keyPerf = ''KeyPerf'' \<and> upgraded ''RestPerf'' keyPerf = ''KeyPerf'' \<and>
   upgraded ''Zapi'' keyPerfWithZapi = ''Zapi'' \<and> upgraded ''ZapiPerf'' keyPerfWithZapi = ''KeyPerf'' \<and>
   upgraded ''RestPerf'' keyPerfWithZapi = ''KeyPerf'' \<and>
   upgraded ''Zapi'' asaR2 = ''Rest'' \<and> upgraded ''RestPerf'' asaR2 = ''KeyPerf''"
proof -
  have "upgradeCollector c r = c\<lparr>Name := upgraded (Name c) r\<rparr>"
    by (simp add: upgraded_def upgradeCollector_def Let_def)
  then show ?thesis using S1_rows by (simp add: upgraded_closed_form)
qed

theorem upgradeCollector_rules_witness:
  "\<not> ZAPIsExist ontap917 \<and> \<not> IsDisaggregated ontap917 \<and>
   upgraded ''Zapi'' ontap917 = ''Rest'' \<and> upgraded ''ZapiPerf'' ontap917 = ''RestPerf'' \<and>
   upgraded ''RestPerf'' ontap917 = ''RestPerf'' \<and>
   IsDisaggregated asaR2 \<and> IsSanOptimized asaR2 \<and>
   upgraded ''RestPerf'' asaR2 = ''KeyPerf'' \<and> upgraded ''ZapiPerf'' asaR2 = ''KeyPerf'' \<and>
   upgraded ''Zapi'' asaR2 = ''Rest'' \<and>
   ''StorageGrid'' \<notin> {''Zapi'', ''ZapiPerf'', ''RestPerf''} \<and> upgraded ''StorageGrid'' asaR2 = ''StorageGrid'' \<and>
   ZAPIsExist ontap911 \<and> upgraded ''Zapi'' ontap911 = ''Zapi'' \<and> upgraded ''ZapiPerf'' ontap911 = ''ZapiPerf''"
  using upgradeCollector_rules[of ontap917 "''StorageGrid''" "\<lparr> Name = ''Zapi'' \<rparr>"]
        upgradeCollector_rules[of asaR2 "''StorageGrid''" "\<lparr> Name = ''Zapi'' \<rparr>"]
        upgradeCollector_rules[of ontap911 "''StorageGrid''" "\<lparr> Name = ''Zapi'' \<rparr>"]
  by (simp add: remote_defs)

section \<open>negotiateONTAPAPI\<close>

text \<open>
  C8, as stated, has the poller continue with an empty capability record when the probe
  fails. In the row "ONTAP Collector with Error" of \<open>TestNegotiateONTAPAPI\<close> the probe
  returns version 9.11.1 together with an error, and the record kept is that one.
\<close>

theorem negotiateONTAPAPI_error_counterexample:
  "negotiateONTAPAPI ontap_classes [\<lparr> Name = ''Zapi'' \<rparr>]
       (remote_9_11_1, Some (ErrOther ''failed to gather cluster info'')) \<lparr> remote = empty_Remote \<rparr>
     = (\<lparr> remote = remote_9_11_1 \<rparr>, 1) \<and> remote_9_11_1 \<noteq> empty_Remote"
  by (simp add: negotiateONTAPAPI_def ontap_classes_def remote_9_11_1_def empty_Remote_def)

text \<open>
  C8, amended. When an ONTAP collector is requested, \<open>negotiateONTAPAPI\<close> calls the
  probe once and keeps the record the probe returned, whether or not it returned an
  error with it; it has no error to return, so a failed probe cannot fail the startup.
  When no ONTAP collector is requested the probe is not called and the capability record
  stays what it was (empty at startup).
\<close>

theorem negotiateONTAPAPI_probe:
  "((\<exists>c \<in> set cols. isONTAP (Name c)) \<longrightarrow>
      negotiateONTAPAPI isONTAP cols (r, err) p = (p\<lparr>remote := r\<rparr>, 1)) \<and>
   (\<not> (\<exists>c \<in> set cols. isONTAP (Name c)) \<longrightarrow>
      negotiateONTAPAPI isONTAP cols (r, err) p = (p, 0))"
  by (simp add: negotiateONTAPAPI_def list_ex_iff)

theorem negotiateONTAPAPI_probe_witness:
  "(\<exists>c \<in> set [\<lparr> Name = ''Zapi'' \<rparr>]. ontap_classes (Name c)) \<and>
   negotiateONTAPAPI ontap_classes [\<lparr> Name = ''Zapi'' \<rparr>]
       (remote_9_11_1, Some (ErrOther ''failed to gather cluster info'')) \<lparr> remote = empty_Remote \<rparr>
     = (\<lparr> remote = remote_9_11_1 \<rparr>, 1) \<and>
   negotiateONTAPAPI ontap_classes [\<lparr> Name = ''Zapi'' \<rparr>] (remote_9_11_1, None) \<lparr> remote = empty_Remote \<rparr>
     = (\<lparr> remote = remote_9_11_1 \<rparr>, 1) \<and>
   \<not> (\<exists>c \<in> set [\<lparr> Name = ''StorageGrid'' \<rparr>]. ontap_classes (Name c)) \<and>
   negotiateONTAPAPI ontap_classes [\<lparr> Name = ''StorageGrid'' \<rparr>] (empty_Remote, None) \<lparr> remote = empty_Remote \<rparr>
     = (\<lparr> remote = empty_Remote \<rparr>, 0)"
  using negotiateONTAPAPI_probe[of "[\<lparr> Name = ''Zapi'' \<rparr>]" ontap_classes remote_9_11_1
           "Some (ErrOther ''failed to gather cluster info'')" "\<lparr> remote = empty_Remote \<rparr>"]
        negotiateONTAPAPI_probe[of "[\<lparr> Name = ''Zapi'' \<rparr>]" ontap_classes remote_9_11_1
           None "\<lparr> remote = empty_Remote \<rparr>"]
        negotiateONTAPAPI_probe[of "[\<lparr> Name = ''StorageGrid'' \<rparr>]" ontap_classes empty_Remote
           None "\<lparr> remote = empty_Remote \<rparr>"]
  by (simp add: ontap_classes_def)

section \<open>uniquifyObjectCollectors\<close>

lemmas oc_defs = ocm_def oc_def ocs_def

text \<open>The rows of \<open>Test_nonOverlappingCollectors\<close>, scenario S2 among them.\<close>

lemma Test_nonOverlappingCollectors_rows:
  "nonOverlappingCollectors [] = [] \<and>
   nonOverlappingCollectors (ocs [''Rest'']) = ocs [''Rest''] \<and>
   nonOverlappingCollectors (ocs [''Rest'', ''ZapiPerf'']) = ocs [''Rest'', ''ZapiPerf''] \<and>
   nonOverlappingCollectors (ocs [''Rest'', ''Zapi'']) = ocs [''Rest''] \<and>
   nonOverlappingCollectors (ocs [''Zapi'', ''Rest'']) = ocs [''Zapi''] \<and>
   nonOverlappingCollectors (ocs [''Zapi'', ''Rest'', ''Rest'', ''Rest'', ''Rest'', ''Rest'',
                                  ''Zapi'', ''Zapi'', ''Zapi'', ''Zapi'', ''Zapi'']) = ocs [''Zapi''] \<and>
   nonOverlappingCollectors (ocs [''Rest'', ''SG'']) = ocs [''Rest'', ''SG''] \<and>
   nonOverlappingCollectors (ocs [''Rest'', ''KeyPerf'']) = ocs [''Rest'', ''KeyPerf''] \<and>
   nonOverlappingCollectors (ocs [''RestPerf'', ''KeyPerf'']) = ocs [''RestPerf''] \<and>
   nonOverlappingCollectors (ocs [''KeyPerf'', ''KeyPerf'']) = ocs [''KeyPerf'']"
  by (simp add: nonOverlappingCollectors_def overlaps_def oc_defs)








end
